theory Spec2Isabelle
  imports Main "HOL-Library.AList"
begin

section \<open>The gateway WebSocket client of the DingTalk extension\<close>

text \<open>
  A shallow embedding of \<^verbatim>\<open>extensions/dingtalk/src/gateway-ws.ts\<close>: the class
  \<^verbatim>\<open>GatewayWsClient\<close> with its request correlation, event routing, reconnect
  back-off, progress cache and the async generator \<^verbatim>\<open>chatStream\<close>.

  JavaScript runs the client on one thread. A \<^emph>\<open>task\<close> (a socket event, a timer, a call
  from outside) runs a handler to its end; the continuations of the promises it settled
  run right after it, before the next task. The model follows this: every handler is a
  function on the state, settled promises queue a continuation, and \<open>step\<close> runs one task
  and then the queued continuations.

  Numbers are \<open>int\<close>: times, delays and sequence numbers are integers of the
  JavaScript number type, which is the IEEE double. The arithmetic on times and delays
  stays far below \<open>2 ^ 53\<close>, where it is exact; the arithmetic on sequence numbers,
  which come from the frames, is rounded as the double arithmetic rounds it (\<open>dbl\<close>
  below). A \<open>string\<close> stands for a JavaScript string, one element per
  code unit, so that \<open>length\<close> is \<^verbatim>\<open>.length\<close> and \<open>drop n\<close> is \<^verbatim>\<open>.slice(n)\<close>.
  A \<^verbatim>\<open>Map\<close> is an association list in insertion order: \<open>AList.update\<close> is
  \<^verbatim>\<open>set\<close>, \<open>AList.delete\<close> is \<^verbatim>\<open>delete\<close>, \<open>map_of\<close> is \<^verbatim>\<open>get\<close>.
\<close>

subsection \<open>Data\<close>

type_synonym uuid = string

datatype chat_state = Delta | Final | Aborted | ChatError

record content_part =
  ctype :: string
  ctext :: "string option"

record chat_message =
  role :: string
  content :: "content_part list"

text \<open>
  \<^verbatim>\<open>ChatEvent\<close>. The listener tests \<^verbatim>\<open>typeof evt.seq === "number"\<close>, so \<open>seq\<close> is
  optional here; a missing \<^verbatim>\<open>content\<close> reads as the empty text, like an empty one.
\<close>

record ChatEvent =
  runId :: uuid
  sessionKey :: string
  seq :: "int option"
  state :: chat_state
  message :: "chat_message option"
  errorMessage :: "string option"

text \<open>A frame after \<^verbatim>\<open>JSON.parse\<close>; a text that does not parse is \<open>None\<close>.\<close>

datatype frame =
    ResFrame uuid bool "string option"
  | EventFrame string "int option" "ChatEvent option"
  | OtherFrame

datatype outcome = Resolved | Rejected string

text \<open>Who awaits a request: the handshake of a socket, a chat stream, or an outside caller.\<close>

datatype awaiter = Handshake nat | ChatSend uuid | Outside nat

record Pending =
  timeoutId :: nat
  awaiter :: awaiter

record SessionProgress =
  p_runId :: uuid
  p_sessionKey :: string
  p_accumulated :: string
  p_lastSeq :: int
  updatedAt :: int

datatype timer_cb = ReconnectCb | RequestTimeoutCb uuid string awaiter

record timer =
  t_id :: nat
  t_delay :: int
  t_due :: int
  t_cb :: timer_cb

datatype ready_state = CONNECTING | OPEN | CLOSING | CLOSED

text \<open>
  A socket the client created: its ready state, and whether the promise that
  \<^verbatim>\<open>doConnect\<close> returned for it is settled already.
\<close>

record socket =
  readyState :: ready_state
  attemptSettled :: bool

text \<open>One constructor for each call of the logger, with the values it prints.\<close>

datatype log =
    LogConnecting
  | LogConnected
  | LogSocketError string
  | LogGap int int int
  | LogParseError
  | LogNotifyClose uuid
  | LogClosedReconnect
  | LogReconnectFailed string
  | LogCleanup string
  | LogSaved string nat int
  | LogFound string nat int
  | LogGraceful nat int
  | LogInterrupted nat

text \<open>
  Where one call of \<^verbatim>\<open>chatStream\<close> stands: awaiting the answer to \<^verbatim>\<open>chat.send\<close>;
  in the loop awaiting its promise, unresolved (\<open>Waiting\<close>: the resolver is in
  \<^verbatim>\<open>resolvers\<close>) or resolved with the continuation queued (\<open>Ready\<close>); suspended at the
  \<^verbatim>\<open>yield\<close> of the loop or at the one after it; returned; thrown. \<open>Spinning\<close> is the
  loop that never suspends again: not done, \<^verbatim>\<open>hasNewData\<close> set, nothing to yield.
\<close>

datatype phase =
    AwaitAck | Waiting | Ready | YieldedLoop | YieldedFinal | Returned | Thrown string | Spinning

text \<open>
  The local variables of one call of \<^verbatim>\<open>chatStream\<close>, which its listener shares, with
  the session key of its parameters, its phase and the increments it has yielded.
  \<^verbatim>\<open>done\<close> is \<open>isDone\<close>.
\<close>

record run =
  params_sessionKey :: string
  accumulated :: string
  lastYieldedLength :: nat
  isDone :: bool
  error :: "string option"
  disconnectedWithData :: bool
  lastEventSeq :: int
  hasNewData :: bool
  phase :: phase
  yielded :: "string list"

datatype caller = Caller nat | ReconnectTimer

datatype connect_ret = ReturnsVoid | Throws string | Awaits nat

datatype task = ReqSettled awaiter outcome | ConnSettled nat outcome | GenResume uuid

text \<open>
  The fields of \<^verbatim>\<open>GatewayWsClient\<close>, then the host around it: the clock, the timers
  of \<^verbatim>\<open>setTimeout\<close>, the sockets created with their ready state, the request frames
  written, the log, the calls of \<^verbatim>\<open>chatStream\<close>, the callers of \<^verbatim>\<open>connect\<close> and what
  they got, what outside requests got, and the queue of continuations. \<open>ws\<close> and
  \<open>connectPromise\<close> name a socket by its index in \<open>sockets\<close>; the promise of
  \<^verbatim>\<open>doConnect\<close> is named by the socket it created.
\<close>

record client =
  ws :: "nat option"
  pending :: "(uuid \<times> Pending) list"
  chatListeners :: "uuid list"
  connected :: bool
  closed :: bool
  disconnected :: bool
  reconnectTimer :: "nat option"
  backoffMs :: int
  connectPromise :: "nat option"
  lastSeq :: "int option"
  sessionProgress :: "(string \<times> SessionProgress) list"
  now :: int
  timers :: "timer list"
  nextTimer :: nat
  sockets :: "socket list"
  sent :: "(nat \<times> uuid \<times> string) list"
  logs :: "log list"
  runs :: "(uuid \<times> run) list"
  connectWaiters :: "(caller \<times> nat) list"
  connectResults :: "(caller \<times> outcome) list"
  requestResults :: "(nat \<times> outcome) list"
  microtasks :: "task list"

definition PROGRESS_TTL_MS :: int where
  "PROGRESS_TTL_MS = 5 * 60 * 1000"

definition new_client :: client where
  "new_client = \<lparr> ws = None, pending = [], chatListeners = [], connected = False,
     closed = False, disconnected = False, reconnectTimer = None, backoffMs = 1000,
     connectPromise = None, lastSeq = None, sessionProgress = [], now = 0, timers = [],
     nextTimer = 0, sockets = [], sent = [], logs = [], runs = [], connectWaiters = [],
     connectResults = [], requestResults = [], microtasks = [] \<rparr>"

subsection \<open>The host: log, timers, promises\<close>

definition logger :: "log \<Rightarrow> client \<Rightarrow> client" where
  "logger l c = c\<lparr>logs := logs c @ [l]\<rparr>"

definition enqueue :: "task \<Rightarrow> client \<Rightarrow> client" where
  "enqueue t c = c\<lparr>microtasks := microtasks c @ [t]\<rparr>"

definition setTimeout :: "timer_cb \<Rightarrow> int \<Rightarrow> client \<Rightarrow> nat \<times> client" where
  "setTimeout f ms c =
     (nextTimer c,
      c\<lparr>timers := timers c @ [\<lparr>t_id = nextTimer c, t_delay = ms, t_due = now c + ms, t_cb = f\<rparr>],
        nextTimer := Suc (nextTimer c)\<rparr>)"

definition clearTimeout :: "nat \<Rightarrow> client \<Rightarrow> client" where
  "clearTimeout i c = c\<lparr>timers := filter (\<lambda>t. t_id t \<noteq> i) (timers c)\<rparr>"

text \<open>A promise settles once: \<^verbatim>\<open>resolve\<close> and \<^verbatim>\<open>reject\<close> of a settled one do nothing.\<close>

definition socket_state :: "client \<Rightarrow> nat \<Rightarrow> ready_state option" where
  "socket_state c s = (if s < length (sockets c) then Some (readyState (sockets c ! s)) else None)"

definition set_ready :: "nat \<Rightarrow> ready_state \<Rightarrow> client \<Rightarrow> client" where
  "set_ready s r c =
     (if s < length (sockets c)
      then c\<lparr>sockets := (sockets c)[s := (sockets c ! s)\<lparr>readyState := r\<rparr>]\<rparr> else c)"

definition settle_attempt :: "nat \<Rightarrow> outcome \<Rightarrow> client \<Rightarrow> client" where
  "settle_attempt s out c =
     (if s < length (sockets c) \<and> \<not> attemptSettled (sockets c ! s)
      then enqueue (ConnSettled s out)
             (c\<lparr>sockets := (sockets c)[s := (sockets c ! s)\<lparr>attemptSettled := True\<rparr>]\<rparr>)
      else c)"

subsection \<open>Connecting\<close>

text \<open>
  \<^verbatim>\<open>doConnect\<close>: a new socket, which becomes \<^verbatim>\<open>this.ws\<close>; its handlers are the
  socket tasks of \<open>handle\<close> below.
\<close>

definition doConnect :: "client \<Rightarrow> nat \<times> client" where
  "doConnect c =
     (let s = length (sockets c); c1 = logger LogConnecting c
      in (s, c1\<lparr>sockets := sockets c1 @ [\<lparr>readyState = CONNECTING, attemptSettled = False\<rparr>],
               ws := Some s, disconnected := False\<rparr>))"

text \<open>
  \<^verbatim>\<open>connect\<close> up to its \<^verbatim>\<open>await\<close>: what the caller gets, and the state. The
  \<^verbatim>\<open>finally\<close> of the caller that started the attempt is \<open>connect_settled\<close>.
\<close>

definition connect :: "client \<Rightarrow> connect_ret \<times> client" where
  "connect c =
     (if connected c then (ReturnsVoid, c)
      else if closed c then (Throws ''client is closed'', c)
      else case connectPromise c of
        Some s \<Rightarrow> (Awaits s, c)
      | None \<Rightarrow> (let (s, c1) = doConnect c in (Awaits s, c1\<lparr>connectPromise := Some s\<rparr>)))"

definition deliver :: "caller \<Rightarrow> outcome \<Rightarrow> client \<Rightarrow> client" where
  "deliver k out c =
     (let c1 = c\<lparr>connectResults := connectResults c @ [(k, out)]\<rparr>
      in case (k, out) of
           (ReconnectTimer, Rejected e) \<Rightarrow> logger (LogReconnectFailed e) c1
         | _ \<Rightarrow> c1)"

definition call_connect :: "caller \<Rightarrow> client \<Rightarrow> client" where
  "call_connect k c =
     (case connect c of
        (ReturnsVoid, c1) \<Rightarrow> deliver k Resolved c1
      | (Throws e, c1) \<Rightarrow> deliver k (Rejected e) c1
      | (Awaits s, c1) \<Rightarrow> c1\<lparr>connectWaiters := connectWaiters c1 @ [(k, s)]\<rparr>)"

definition connect_settled :: "nat \<Rightarrow> outcome \<Rightarrow> client \<Rightarrow> client" where
  "connect_settled s out c =
     (let c1 = c\<lparr>connectPromise := None,
                 connectWaiters := filter (\<lambda>w. snd w \<noteq> s) (connectWaiters c)\<rparr>
      in fold (\<lambda>w. deliver (fst w) out) (filter (\<lambda>w. snd w = s) (connectWaiters c)) c1)"

subsection \<open>Requests\<close>

text \<open>
  \<^verbatim>\<open>request\<close> up to its promise; \<open>i\<close> is what \<^verbatim>\<open>randomUUID\<close> returned. The
  \<^verbatim>\<open>resolve\<close> and \<^verbatim>\<open>reject\<close> stored in the pending entry are \<open>pending_settle\<close>.
\<close>

definition request :: "string \<Rightarrow> awaiter \<Rightarrow> uuid \<Rightarrow> client \<Rightarrow> client" where
  "request method aw i c =
     (case ws c of
        None \<Rightarrow> enqueue (ReqSettled aw (Rejected ''not connected'')) c
      | Some s \<Rightarrow>
          if socket_state c s \<noteq> Some OPEN
          then enqueue (ReqSettled aw (Rejected ''not connected'')) c
          else let (t, c1) = setTimeout (RequestTimeoutCb i method aw) 30000 c
               in c1\<lparr>pending := AList.update i \<lparr>timeoutId = t, awaiter = aw\<rparr> (pending c1),
                     sent := sent c1 @ [(s, i, method)]\<rparr>)"

definition pending_settle :: "Pending \<Rightarrow> outcome \<Rightarrow> client \<Rightarrow> client" where
  "pending_settle p out c = enqueue (ReqSettled (awaiter p) out) (clearTimeout (timeoutId p) c)"

definition request_timeout :: "uuid \<Rightarrow> string \<Rightarrow> awaiter \<Rightarrow> client \<Rightarrow> client" where
  "request_timeout i method aw c =
     enqueue (ReqSettled aw (Rejected (''request timeout: '' @ method)))
       (c\<lparr>pending := AList.delete i (pending c)\<rparr>)"

definition flushPending :: "string \<Rightarrow> client \<Rightarrow> client" where
  "flushPending e c =
     (fold (\<lambda>(i, p). pending_settle p (Rejected e)) (pending c) c)\<lparr>pending := []\<rparr>"

definition sendConnect :: "nat \<Rightarrow> uuid \<Rightarrow> client \<Rightarrow> client" where
  "sendConnect s i c = request ''connect'' (Handshake s) i c"

definition abortChat :: "nat \<Rightarrow> uuid \<Rightarrow> client \<Rightarrow> client" where
  "abortChat k i c = request ''chat.abort'' (Outside k) i c"

subsection \<open>The progress cache\<close>

definition expired :: "int \<Rightarrow> SessionProgress \<Rightarrow> bool" where
  "expired t p = (t - updatedAt p > PROGRESS_TTL_MS)"

definition cleanupExpiredProgress :: "client \<Rightarrow> client" where
  "cleanupExpiredProgress c =
     c\<lparr>sessionProgress := filter (\<lambda>(k, p). \<not> expired (now c) p) (sessionProgress c),
       logs := logs c @ map (\<lambda>(k, p). LogCleanup k)
                 (filter (\<lambda>(k, p). expired (now c) p) (sessionProgress c))\<rparr>"

definition saveProgress :: "string \<Rightarrow> uuid \<Rightarrow> string \<Rightarrow> int \<Rightarrow> client \<Rightarrow> client" where
  "saveProgress k r acc n c =
     logger (LogSaved k (length acc) n)
       (c\<lparr>sessionProgress :=
            AList.update k \<lparr>p_runId = r, p_sessionKey = k, p_accumulated = acc, p_lastSeq = n,
                            updatedAt = now c\<rparr> (sessionProgress c)\<rparr>)"

definition getProgress :: "string \<Rightarrow> client \<Rightarrow> SessionProgress option \<times> client" where
  "getProgress k c =
     (let c1 = cleanupExpiredProgress c in (map_of (sessionProgress c1) k, c1))"

definition clearProgress :: "string \<Rightarrow> client \<Rightarrow> client" where
  "clearProgress k c = c\<lparr>sessionProgress := AList.delete k (sessionProgress c)\<rparr>"

subsection \<open>The chat stream\<close>

definition event_text :: "ChatEvent \<Rightarrow> string" where
  "event_text evt =
     (case message evt of
        None \<Rightarrow> []
      | Some m \<Rightarrow>
          concat (map (\<lambda>p. case ctext p of None \<Rightarrow> [] | Some t \<Rightarrow> t)
                    (filter (\<lambda>p. ctype p = ''text'') (content m))))"

definition new_run :: "string \<Rightarrow> run" where
  "new_run k = \<lparr> params_sessionKey = k, accumulated = [], lastYieldedLength = 0,
     isDone = False, error = None, disconnectedWithData = False, lastEventSeq = 0,
     hasNewData = False, phase = AwaitAck, yielded = [] \<rparr>"

definition put_run :: "uuid \<Rightarrow> run \<Rightarrow> client \<Rightarrow> client" where
  "put_run r v c = c\<lparr>runs := AList.update r v (runs c)\<rparr>"

text \<open>
  The listener \<^verbatim>\<open>chatStream\<close> registers for its run, in the order of the source: the
  sequence number, the text of a delta or final event, the end on final or aborted, the
  error, and at last \<^verbatim>\<open>resolvers.shift()?.()\<close>, which resolves the promise the loop
  awaits when there is one.
\<close>

definition listener :: "uuid \<Rightarrow> ChatEvent \<Rightarrow> client \<Rightarrow> client" where
  "listener r evt c =
     (case map_of (runs c) r of
        None \<Rightarrow> c
      | Some v \<Rightarrow>
          let v1 = (case seq evt of Some n \<Rightarrow> v\<lparr>lastEventSeq := n\<rparr> | None \<Rightarrow> v);
              txt = event_text evt;
              grows = ((state evt = Delta \<or> state evt = Final)
                        \<and> length txt > length (accumulated v1));
              v2 = (if grows then v1\<lparr>accumulated := txt, hasNewData := True\<rparr> else v1);
              c2 = (if grows
                    then saveProgress (params_sessionKey v) r txt (lastEventSeq v1) c else c);
              ends = (state evt = Final \<or> state evt = Aborted);
              v3 = (if ends then v2\<lparr>isDone := True\<rparr> else v2);
              c3 = (if ends then clearProgress (params_sessionKey v) c2 else c2);
              v4 = (if state evt = ChatError
                    then if length (accumulated v3) > 0
                         then v3\<lparr>disconnectedWithData := True, isDone := True\<rparr>
                         else v3\<lparr>error := Some (case errorMessage evt of
                                                    Some e \<Rightarrow> e | None \<Rightarrow> ''chat error''),
                                 isDone := True\<rparr>
                    else v3);
              c4 = (if state evt = ChatError \<and> length (accumulated v3) > 0
                    then logger (LogGraceful (length (accumulated v3)) (lastEventSeq v3)) c3
                    else c3)
          in if phase v4 = Waiting
             then enqueue (GenResume r) (put_run r (v4\<lparr>phase := Ready\<rparr>) c4)
             else put_run r v4 c4)"

text \<open>The \<^verbatim>\<open>finally\<close> of the generator, with the phase it ends in.\<close>

definition finish :: "uuid \<Rightarrow> run \<Rightarrow> phase \<Rightarrow> client \<Rightarrow> client" where
  "finish r v ph c =
     put_run r (v\<lparr>phase := ph\<rparr>) (c\<lparr>chatListeners := removeAll r (chatListeners c)\<rparr>)"

text \<open>After the loop: the last increment if one is left, then the return.\<close>

definition complete :: "uuid \<Rightarrow> run \<Rightarrow> client \<Rightarrow> client" where
  "complete r v c =
     finish r v Returned
       (if disconnectedWithData v then logger (LogInterrupted (length (accumulated v))) c else c)"

definition flush :: "uuid \<Rightarrow> run \<Rightarrow> client \<Rightarrow> client" where
  "flush r v c =
     (if length (accumulated v) > lastYieldedLength v
      then put_run r (v\<lparr>yielded := yielded v @ [drop (lastYieldedLength v) (accumulated v)],
                         phase := YieldedFinal\<rparr>) c
      else complete r v c)"

text \<open>
  The head of the loop: \<^verbatim>\<open>while (!done)\<close> and the promise it awaits, which is
  resolved at once when \<^verbatim>\<open>done || hasNewData\<close>, and else leaves its resolver in
  \<^verbatim>\<open>resolvers\<close>.
\<close>

definition loop_head :: "uuid \<Rightarrow> run \<Rightarrow> client \<Rightarrow> client" where
  "loop_head r v c =
     (if isDone v then flush r v c
      else if hasNewData v then enqueue (GenResume r) (put_run r (v\<lparr>phase := Ready\<rparr>) c)
      else put_run r (v\<lparr>phase := Waiting\<rparr>) c)"

text \<open>
  The body of the loop after its \<^verbatim>\<open>await\<close>, up to the next suspension. When it
  neither throws nor yields and the stream is not done while \<^verbatim>\<open>hasNewData\<close> is set,
  the next promise is resolved at once and the body runs again on the same variables,
  for ever.
\<close>

definition after_await :: "uuid \<Rightarrow> client \<Rightarrow> client" where
  "after_await r c =
     (case map_of (runs c) r of
        None \<Rightarrow> c
      | Some v \<Rightarrow>
          if phase v \<noteq> Ready then c
          else case error v of
            Some e \<Rightarrow>
              if length (accumulated v) = 0 then finish r v (Thrown e) c
              else if hasNewData v \<and> length (accumulated v) > lastYieldedLength v
              then put_run r (v\<lparr>yielded := yielded v @ [drop (lastYieldedLength v) (accumulated v)],
                                 phase := YieldedLoop\<rparr>) c
              else if isDone v then flush r v c
              else if hasNewData v then put_run r (v\<lparr>phase := Spinning\<rparr>) c
              else put_run r (v\<lparr>phase := Waiting\<rparr>) c
          | None \<Rightarrow>
              if hasNewData v \<and> length (accumulated v) > lastYieldedLength v
              then put_run r (v\<lparr>yielded := yielded v @ [drop (lastYieldedLength v) (accumulated v)],
                                 phase := YieldedLoop\<rparr>) c
              else if isDone v then flush r v c
              else if hasNewData v then put_run r (v\<lparr>phase := Spinning\<rparr>) c
              else put_run r (v\<lparr>phase := Waiting\<rparr>) c)"

text \<open>
  The first \<^verbatim>\<open>next()\<close> of the generator: \<open>r\<close> and \<open>i\<close> are what the two calls of
  \<^verbatim>\<open>randomUUID\<close> returned, \<open>k\<close> is \<^verbatim>\<open>params.sessionKey\<close>. The message and the
  timeout of the parameters go into the frame only.
\<close>

definition chatStream :: "uuid \<Rightarrow> uuid \<Rightarrow> string \<Rightarrow> client \<Rightarrow> client" where
  "chatStream r i k c =
     (let (savedProgress, c1) = getProgress k c;
          c2 = (case savedProgress of
                  Some p \<Rightarrow> logger (LogFound k (length (p_accumulated p)) (p_lastSeq p)) c1
                | None \<Rightarrow> c1);
          c3 = put_run r (new_run k)
                 (c2\<lparr>chatListeners := (if r \<in> set (chatListeners c2) then chatListeners c2
                                          else chatListeners c2 @ [r])\<rparr>)
      in request ''chat.send'' (ChatSend r) i c3)"

text \<open>The answer to \<^verbatim>\<open>chat.send\<close>: into the loop, or out through \<^verbatim>\<open>finally\<close>.\<close>

definition chat_send_settled :: "uuid \<Rightarrow> outcome \<Rightarrow> client \<Rightarrow> client" where
  "chat_send_settled r out c =
     (case map_of (runs c) r of
        None \<Rightarrow> c
      | Some v \<Rightarrow>
          if phase v \<noteq> AwaitAck then c
          else case out of
            Resolved \<Rightarrow> loop_head r v c
          | Rejected e \<Rightarrow> finish r v (Thrown e) c)"

text \<open>
  A later \<^verbatim>\<open>next()\<close> of the consumer: the generator goes on behind the \<^verbatim>\<open>yield\<close> it
  is suspended at. In the loop that is \<^verbatim>\<open>lastYieldedLength = accumulated.length;
  hasNewData = false\<close>, read when the generator resumes.
\<close>

definition next_call :: "uuid \<Rightarrow> client \<Rightarrow> client" where
  "next_call r c =
     (case map_of (runs c) r of
        None \<Rightarrow> c
      | Some v \<Rightarrow>
          if phase v = YieldedLoop
          then loop_head r (v\<lparr>lastYieldedLength := length (accumulated v), hasNewData := False\<rparr>) c
          else if phase v = YieldedFinal then complete r v c
          else c)"

subsection \<open>Frames, the close of the socket, the reconnect timer\<close>

text \<open>
  The sum or difference of two integers as JavaScript computes it: the exact result
  rounded to the nearest double, to the one with the even significand when two are
  equally near. An integer of magnitude up to \<open>2 ^ 53\<close> is a double; a larger one of
  \<open>53 + e\<close> bits is rounded to a multiple of \<open>2 ^ e\<close>. (Sequence numbers in the
  frames are integers that are finite doubles; results of magnitude \<open>2 ^ 1024\<close>, which
  are \<^verbatim>\<open>Infinity\<close> in JavaScript, are outside the model.)
\<close>

function bits :: "int \<Rightarrow> nat" where
  "bits n = (if n \<le> 0 then 0 else Suc (bits (n div 2)))"
  by pat_completeness auto

termination bits
  by (relation "measure nat") auto

declare bits.simps [simp del]

definition dbl :: "int \<Rightarrow> int" where
  "dbl n =
     (if \<bar>n\<bar> \<le> 9007199254740992 then n
      else let e = bits \<bar>n\<bar> - 53; u = 2 ^ e; q = \<bar>n\<bar> div u; r = \<bar>n\<bar> mod u
           in sgn n * ((if 2 * r > u \<or> (2 * r = u \<and> odd q) then q + 1 else q) * u))"

text \<open>
  The first block of \<^verbatim>\<open>handleMessage\<close> for an event frame: the sequence cursor with
  its gap warning, \<^verbatim>\<open>seq > this.lastSeq + 1\<close> and \<^verbatim>\<open>seq - this.lastSeq - 1\<close> in
  the arithmetic of doubles.
\<close>

definition track_seq :: "int \<Rightarrow> client \<Rightarrow> client" where
  "track_seq n c =
     (case lastSeq c of
        None \<Rightarrow> c
      | Some l \<Rightarrow>
          if n > dbl (l + 1)
          then logger (LogGap (dbl (l + 1)) n (dbl (dbl (n - l) - 1))) c else c)
     \<lparr>lastSeq := Some n\<rparr>"

text \<open>
  A chat frame without a payload makes \<^verbatim>\<open>payload.runId\<close> throw inside the
  \<^verbatim>\<open>try\<close>, which logs it like a text that does not parse.
\<close>

definition route_event :: "string \<Rightarrow> ChatEvent option \<Rightarrow> client \<Rightarrow> client" where
  "route_event ev payload c =
     (if ev = ''chat''
      then (case payload of
              None \<Rightarrow> logger LogParseError c
            | Some p \<Rightarrow> if runId p \<in> set (chatListeners c) then listener (runId p) p c else c)
      else c)"

definition handleMessage :: "frame option \<Rightarrow> client \<Rightarrow> client" where
  "handleMessage raw c =
     (case raw of
        None \<Rightarrow> logger LogParseError c
      | Some (ResFrame i ok e) \<Rightarrow>
          (case map_of (pending c) i of
             None \<Rightarrow> c
           | Some p \<Rightarrow>
               pending_settle p
                 (if ok then Resolved
                  else Rejected (case e of Some m \<Rightarrow> m | None \<Rightarrow> ''unknown error''))
                 (c\<lparr>pending := AList.delete i (pending c)\<rparr>))
      | Some (EventFrame ev sq payload) \<Rightarrow>
          route_event ev payload (case sq of None \<Rightarrow> c | Some n \<Rightarrow> track_seq n c)
      | Some OtherFrame \<Rightarrow> c)"

definition scheduleReconnect :: "client \<Rightarrow> client" where
  "scheduleReconnect c =
     (case reconnectTimer c of
        Some t \<Rightarrow> c
      | None \<Rightarrow>
          let (t, c1) = setTimeout ReconnectCb (backoffMs c) c
          in c1\<lparr>reconnectTimer := Some t, backoffMs := min (backoffMs c * 2) 30000\<rparr>)"

definition close_event :: "uuid \<Rightarrow> ChatEvent" where
  "close_event r = \<lparr> runId = r, sessionKey = [], seq = Some (- 1), state = ChatError,
     message = None, errorMessage = Some ''WebSocket connection closed unexpectedly'' \<rparr>"

definition handleClose :: "client \<Rightarrow> client" where
  "handleClose c =
     (let c1 = flushPending ''connection closed''
                 (c\<lparr>connected := False, disconnected := True, ws := None\<rparr>);
          c2 = fold (\<lambda>r c'. listener r (close_event r) (logger (LogNotifyClose r) c'))
                 (chatListeners c1) c1
      in if \<not> closed c2 then scheduleReconnect (logger LogClosedReconnect c2) else c2)"

definition reconnect_fired :: "client \<Rightarrow> client" where
  "reconnect_fired c = call_connect ReconnectTimer (c\<lparr>reconnectTimer := None\<rparr>)"


definition close :: "client \<Rightarrow> client" where
  "close c =
     (let c1 = c\<lparr>closed := True\<rparr>;
          c2 = (case reconnectTimer c1 of
                  Some t \<Rightarrow> (clearTimeout t c1)\<lparr>reconnectTimer := None\<rparr>
                | None \<Rightarrow> c1);
          c3 = (case ws c2 of
                  Some s \<Rightarrow> if socket_state c2 s = Some CLOSED then c2 else set_ready s CLOSING c2
                | None \<Rightarrow> c2)
      in flushPending ''client closed'' (c3\<lparr>ws := None\<rparr>))"

subsection \<open>Tasks\<close>

text \<open>
  What the outside does: calls of the public methods, the consumer's \<^verbatim>\<open>next()\<close>, the
  events of a socket, a timer that is due, and the clock, which moves forward by the
  milliseconds given.
\<close>

datatype action =
    CallConnect nat
  | CallClose
  | CallChatStream uuid uuid string
  | CallNext uuid
  | CallAbortChat nat uuid
  | SockOpen nat uuid
  | SockError nat string
  | SockMessage nat "frame option"
  | SockClose nat
  | TimerFire nat
  | Advance int

definition onOpen :: "nat \<Rightarrow> uuid \<Rightarrow> client \<Rightarrow> client" where
  "onOpen s i c = sendConnect s i c"

definition onOpen_settled :: "nat \<Rightarrow> outcome \<Rightarrow> client \<Rightarrow> client" where
  "onOpen_settled s out c =
     (case out of
        Resolved \<Rightarrow>
          settle_attempt s Resolved (logger LogConnected (c\<lparr>connected := True, backoffMs := 1000\<rparr>))
      | Rejected e \<Rightarrow> settle_attempt s (Rejected e) c)"

definition onError :: "nat \<Rightarrow> string \<Rightarrow> client \<Rightarrow> client" where
  "onError s e c =
     (let c1 = logger (LogSocketError e) c
      in if \<not> connected c1 then settle_attempt s (Rejected e) c1 else c1)"

definition fire :: "nat \<Rightarrow> client \<Rightarrow> client" where
  "fire i c =
     (case find (\<lambda>t. t_id t = i) (timers c) of
        None \<Rightarrow> c
      | Some t \<Rightarrow>
          if now c < t_due t then c
          else let c1 = clearTimeout i c
               in case t_cb t of
                    ReconnectCb \<Rightarrow> reconnect_fired c1
                  | RequestTimeoutCb j method aw \<Rightarrow> request_timeout j method aw c1)"

text \<open>
  One task without its continuations. A socket has events only in the ready states in
  which the \<^verbatim>\<open>ws\<close> library emits them: \<open>open\<close> once while connecting, messages while
  open or closing, \<open>error\<close> and \<open>close\<close> until it is closed.
\<close>

definition live :: "client \<Rightarrow> nat \<Rightarrow> bool" where
  "live c s = (case socket_state c s of None \<Rightarrow> False | Some CLOSED \<Rightarrow> False | Some r \<Rightarrow> True)"

definition handle :: "action \<Rightarrow> client \<Rightarrow> client" where
  "handle a c =
     (case a of
        CallConnect k \<Rightarrow> call_connect (Caller k) c
      | CallClose \<Rightarrow> close c
      | CallChatStream r i k \<Rightarrow> chatStream r i k c
      | CallNext r \<Rightarrow> next_call r c
      | CallAbortChat k i \<Rightarrow> abortChat k i c
      | SockOpen s i \<Rightarrow>
          if socket_state c s = Some CONNECTING then onOpen s i (set_ready s OPEN c) else c
      | SockError s e \<Rightarrow> if live c s then onError s e c else c
      | SockMessage s raw \<Rightarrow>
          if socket_state c s = Some OPEN \<or> socket_state c s = Some CLOSING
          then handleMessage raw c else c
      | SockClose s \<Rightarrow> if live c s then handleClose (set_ready s CLOSED c) else c
      | TimerFire i \<Rightarrow> fire i c
      | Advance d \<Rightarrow> c\<lparr>now := now c + max 0 d\<rparr>)"

text \<open>The continuation of a settled promise.\<close>

definition run_task :: "task \<Rightarrow> client \<Rightarrow> client" where
  "run_task t c =
     (case t of
        ReqSettled (Handshake s) out \<Rightarrow> onOpen_settled s out c
      | ReqSettled (ChatSend r) out \<Rightarrow> chat_send_settled r out c
      | ReqSettled (Outside k) out \<Rightarrow> c\<lparr>requestResults := requestResults c @ [(k, out)]\<rparr>
      | ConnSettled s out \<Rightarrow> connect_settled s out c
      | GenResume r \<Rightarrow> after_await r c)"

text \<open>
  The queued continuations run in order; one they queue runs after those already there.
  A continuation of a request queues at most one more, which queues none, so two rounds
  empty the queue.
\<close>

definition run_queued :: "client \<Rightarrow> client" where
  "run_queued c = fold run_task (microtasks c) (c\<lparr>microtasks := []\<rparr>)"

definition step :: "action \<Rightarrow> client \<Rightarrow> client" where
  "step a c = run_queued (run_queued (handle a c))"

definition exec :: "action list \<Rightarrow> client \<Rightarrow> client" where
  "exec as c = fold step as c"

subsection \<open>Notions for the statements\<close>

text \<open>The reconnect timers that are scheduled, and their delays.\<close>

definition reconnect_timers :: "client \<Rightarrow> timer list" where
  "reconnect_timers c = filter (\<lambda>t. t_cb t = ReconnectCb) (timers c)"


text \<open>
  What \<^verbatim>\<open>setTimeout\<close> and the client keep true of the timers: every handle is below
  the next one to be given out, no two timers share a handle, the handle a pending
  request stores is an old one and not the one in \<^verbatim>\<open>reconnectTimer\<close>, and the reconnect
  timers scheduled are exactly the one \<^verbatim>\<open>reconnectTimer\<close> holds, if it holds one.
\<close>

definition timers_inv :: "timer list \<Rightarrow> nat \<Rightarrow> (uuid \<times> Pending) list \<Rightarrow> nat option \<Rightarrow> bool" where
  "timers_inv ts n ps rt =
     (list_all (\<lambda>t. t_id t < n) ts \<and> distinct (map t_id ts)
      \<and> list_all (\<lambda>e. timeoutId (snd e) < n \<and> Some (timeoutId (snd e)) \<noteq> rt) ps
      \<and> map t_id (filter (\<lambda>t. t_cb t = ReconnectCb) ts) = (case rt of None \<Rightarrow> [] | Some t \<Rightarrow> [t]))"

definition timers_ok :: "client \<Rightarrow> bool" where
  "timers_ok c = timers_inv (timers c) (nextTimer c) (pending c) (reconnectTimer c)"

text \<open>
  Continuations that queue no further one, and continuations other than that of a
  handshake that succeeded (the only one that sets \<^verbatim>\<open>connected\<close> and resets the
  back-off).
\<close>

definition queues_none :: "task \<Rightarrow> bool" where
  "queues_none t = (case t of ReqSettled aw out \<Rightarrow> False | _ \<Rightarrow> True)"

definition no_handshake_done :: "task \<Rightarrow> bool" where
  "no_handshake_done t = (case t of ReqSettled (Handshake s) Resolved \<Rightarrow> False | _ \<Rightarrow> True)"


text \<open>A client whose first socket is open with the handshake under way, and the client after it.\<close>

definition handshaking_client :: client where
  "handshaking_client = exec [CallConnect 0, SockOpen 0 ''h1''] new_client"

definition connected_client :: client where
  "connected_client =
     exec [CallConnect 0, SockOpen 0 ''h1'', SockMessage 0 (Some (ResFrame ''h1'' True None))]
       new_client"

text \<open>A chat event frame with one text part, and one with state \<^verbatim>\<open>error\<close>.\<close>

definition text_event :: "uuid \<Rightarrow> int \<Rightarrow> chat_state \<Rightarrow> string \<Rightarrow> ChatEvent" where
  "text_event r n st t =
     \<lparr> runId = r, sessionKey = ''s1'', seq = Some n, state = st,
       message = Some \<lparr> role = ''assistant'',
                         content = [\<lparr> ctype = ''text'', ctext = Some t \<rparr>] \<rparr>,
       errorMessage = None \<rparr>"

definition error_event :: "uuid \<Rightarrow> int \<Rightarrow> string \<Rightarrow> ChatEvent" where
  "error_event r n e =
     \<lparr> runId = r, sessionKey = ''s1'', seq = Some n, state = ChatError, message = None,
       errorMessage = Some e \<rparr>"

definition chat_frame :: "ChatEvent \<Rightarrow> frame option" where
  "chat_frame evt = Some (EventFrame ''chat'' (seq evt) (Some evt))"

definition is_gap :: "log \<Rightarrow> bool" where
  "is_gap l = (case l of LogGap a b m \<Rightarrow> True | _ \<Rightarrow> False)"

text \<open>The connected client with two requests outstanding.\<close>

definition busy_client :: client where
  "busy_client = exec [CallAbortChat 1 ''a1'', CallAbortChat 2 ''a2''] connected_client"

text \<open>The connected client with one chat stream, run \<open>r1\<close> of session \<open>s1\<close>, in its loop.\<close>

definition streaming_client :: client where
  "streaming_client =
     exec [CallChatStream ''r1'' ''q1'' ''s1'', SockMessage 0 (Some (ResFrame ''q1'' True None))]
       connected_client"






text \<open>Sequence numbers that count from 0 and stay below \<open>2 ^ 53\<close>.\<close>

definition seq_in_range :: "int \<Rightarrow> bool" where
  "seq_in_range n = (0 \<le> n \<and> n \<le> 9007199254740991)"

text \<open>
  The task that saves progress for the session \<open>k\<close>: a delta event with a longer text
  for a registered run of that session.
\<close>

definition saves_progress :: "string \<Rightarrow> action \<Rightarrow> client \<Rightarrow> bool" where
  "saves_progress k a c =
     (case a of
        SockMessage s (Some (EventFrame ev sq (Some p))) \<Rightarrow>
          ev = ''chat'' \<and> (socket_state c s = Some OPEN \<or> socket_state c s = Some CLOSING)
          \<and> runId p \<in> set (chatListeners c) \<and> state p = Delta
          \<and> (case map_of (runs c) (runId p) of
                None \<Rightarrow> False
              | Some v \<Rightarrow> params_sessionKey v = k
                          \<and> length (event_text p) > length (accumulated v))
      | _ \<Rightarrow> False)"

fun never_saves :: "string \<Rightarrow> action list \<Rightarrow> client \<Rightarrow> bool" where
  "never_saves k [] c = True"
| "never_saves k (a # as) c = (\<not> saves_progress k a c \<and> never_saves k as (step a c))"

text \<open>
  The connected client with two chat streams in their loops, run \<open>r1\<close> of session \<open>s1\<close>
  and run \<open>r2\<close> of session \<open>s2\<close>, each with a text received and saved, the second
  200 seconds after the first.
\<close>

definition two_sessions_client :: client where
  "two_sessions_client =
     exec [CallChatStream ''r2'' ''q2'' ''s2'', SockMessage 0 (Some (ResFrame ''q2'' True None)),
           SockMessage 0 (chat_frame (text_event ''r1'' 1 Delta ''He'')),
           Advance 200000,
           SockMessage 0 (chat_frame ((text_event ''r2'' 2 Delta ''xy'')\<lparr>sessionKey := ''s2''\<rparr>))]
       streaming_client"


section \<open>Lemmas\<close>

subsection \<open>What each operation leaves alone\<close>

lemma logger_frame [simp]:
  "ws (logger l c) = ws c"
  "pending (logger l c) = pending c"
  "chatListeners (logger l c) = chatListeners c"
  "connected (logger l c) = connected c"
  "closed (logger l c) = closed c"
  "disconnected (logger l c) = disconnected c"
  "reconnectTimer (logger l c) = reconnectTimer c"
  "backoffMs (logger l c) = backoffMs c"
  "connectPromise (logger l c) = connectPromise c"
  "lastSeq (logger l c) = lastSeq c"
  "sessionProgress (logger l c) = sessionProgress c"
  "now (logger l c) = now c"
  "timers (logger l c) = timers c"
  "nextTimer (logger l c) = nextTimer c"
  "sockets (logger l c) = sockets c"
  "sent (logger l c) = sent c"
  "runs (logger l c) = runs c"
  "connectWaiters (logger l c) = connectWaiters c"
  "connectResults (logger l c) = connectResults c"
  "requestResults (logger l c) = requestResults c"
  "microtasks (logger l c) = microtasks c"
  by (simp_all add: logger_def)

lemma enqueue_frame [simp]:
  "ws (enqueue t c) = ws c"
  "pending (enqueue t c) = pending c"
  "chatListeners (enqueue t c) = chatListeners c"
  "connected (enqueue t c) = connected c"
  "closed (enqueue t c) = closed c"
  "disconnected (enqueue t c) = disconnected c"
  "reconnectTimer (enqueue t c) = reconnectTimer c"
  "backoffMs (enqueue t c) = backoffMs c"
  "connectPromise (enqueue t c) = connectPromise c"
  "lastSeq (enqueue t c) = lastSeq c"
  "sessionProgress (enqueue t c) = sessionProgress c"
  "now (enqueue t c) = now c"
  "timers (enqueue t c) = timers c"
  "nextTimer (enqueue t c) = nextTimer c"
  "sockets (enqueue t c) = sockets c"
  "sent (enqueue t c) = sent c"
  "logs (enqueue t c) = logs c"
  "runs (enqueue t c) = runs c"
  "connectWaiters (enqueue t c) = connectWaiters c"
  "connectResults (enqueue t c) = connectResults c"
  "requestResults (enqueue t c) = requestResults c"
  by (simp_all add: enqueue_def)

lemma clearTimeout_frame [simp]:
  "ws (clearTimeout i c) = ws c"
  "pending (clearTimeout i c) = pending c"
  "chatListeners (clearTimeout i c) = chatListeners c"
  "connected (clearTimeout i c) = connected c"
  "closed (clearTimeout i c) = closed c"
  "disconnected (clearTimeout i c) = disconnected c"
  "reconnectTimer (clearTimeout i c) = reconnectTimer c"
  "backoffMs (clearTimeout i c) = backoffMs c"
  "connectPromise (clearTimeout i c) = connectPromise c"
  "lastSeq (clearTimeout i c) = lastSeq c"
  "sessionProgress (clearTimeout i c) = sessionProgress c"
  "now (clearTimeout i c) = now c"
  "nextTimer (clearTimeout i c) = nextTimer c"
  "sockets (clearTimeout i c) = sockets c"
  "sent (clearTimeout i c) = sent c"
  "logs (clearTimeout i c) = logs c"
  "runs (clearTimeout i c) = runs c"
  "connectWaiters (clearTimeout i c) = connectWaiters c"
  "connectResults (clearTimeout i c) = connectResults c"
  "requestResults (clearTimeout i c) = requestResults c"
  "microtasks (clearTimeout i c) = microtasks c"
  by (simp_all add: clearTimeout_def)

lemma set_ready_frame [simp]:
  "ws (set_ready s r c) = ws c"
  "pending (set_ready s r c) = pending c"
  "chatListeners (set_ready s r c) = chatListeners c"
  "connected (set_ready s r c) = connected c"
  "closed (set_ready s r c) = closed c"
  "disconnected (set_ready s r c) = disconnected c"
  "reconnectTimer (set_ready s r c) = reconnectTimer c"
  "backoffMs (set_ready s r c) = backoffMs c"
  "connectPromise (set_ready s r c) = connectPromise c"
  "lastSeq (set_ready s r c) = lastSeq c"
  "sessionProgress (set_ready s r c) = sessionProgress c"
  "now (set_ready s r c) = now c"
  "timers (set_ready s r c) = timers c"
  "nextTimer (set_ready s r c) = nextTimer c"
  "sent (set_ready s r c) = sent c"
  "logs (set_ready s r c) = logs c"
  "runs (set_ready s r c) = runs c"
  "connectWaiters (set_ready s r c) = connectWaiters c"
  "connectResults (set_ready s r c) = connectResults c"
  "requestResults (set_ready s r c) = requestResults c"
  "microtasks (set_ready s r c) = microtasks c"
  by (simp_all add: set_ready_def)

lemma settle_attempt_frame [simp]:
  "ws (settle_attempt s out c) = ws c"
  "pending (settle_attempt s out c) = pending c"
  "chatListeners (settle_attempt s out c) = chatListeners c"
  "connected (settle_attempt s out c) = connected c"
  "closed (settle_attempt s out c) = closed c"
  "disconnected (settle_attempt s out c) = disconnected c"
  "reconnectTimer (settle_attempt s out c) = reconnectTimer c"
  "backoffMs (settle_attempt s out c) = backoffMs c"
  "connectPromise (settle_attempt s out c) = connectPromise c"
  "lastSeq (settle_attempt s out c) = lastSeq c"
  "sessionProgress (settle_attempt s out c) = sessionProgress c"
  "now (settle_attempt s out c) = now c"
  "timers (settle_attempt s out c) = timers c"
  "nextTimer (settle_attempt s out c) = nextTimer c"
  "sent (settle_attempt s out c) = sent c"
  "logs (settle_attempt s out c) = logs c"
  "runs (settle_attempt s out c) = runs c"
  "connectWaiters (settle_attempt s out c) = connectWaiters c"
  "connectResults (settle_attempt s out c) = connectResults c"
  "requestResults (settle_attempt s out c) = requestResults c"
  by (simp_all add: settle_attempt_def enqueue_def)

lemma put_run_frame [simp]:
  "ws (put_run r v c) = ws c"
  "pending (put_run r v c) = pending c"
  "chatListeners (put_run r v c) = chatListeners c"
  "connected (put_run r v c) = connected c"
  "closed (put_run r v c) = closed c"
  "disconnected (put_run r v c) = disconnected c"
  "reconnectTimer (put_run r v c) = reconnectTimer c"
  "backoffMs (put_run r v c) = backoffMs c"
  "connectPromise (put_run r v c) = connectPromise c"
  "lastSeq (put_run r v c) = lastSeq c"
  "sessionProgress (put_run r v c) = sessionProgress c"
  "now (put_run r v c) = now c"
  "timers (put_run r v c) = timers c"
  "nextTimer (put_run r v c) = nextTimer c"
  "sockets (put_run r v c) = sockets c"
  "sent (put_run r v c) = sent c"
  "logs (put_run r v c) = logs c"
  "connectWaiters (put_run r v c) = connectWaiters c"
  "connectResults (put_run r v c) = connectResults c"
  "requestResults (put_run r v c) = requestResults c"
  "microtasks (put_run r v c) = microtasks c"
  by (simp_all add: put_run_def)

lemma saveProgress_frame [simp]:
  "ws (saveProgress k r acc n c) = ws c"
  "pending (saveProgress k r acc n c) = pending c"
  "chatListeners (saveProgress k r acc n c) = chatListeners c"
  "connected (saveProgress k r acc n c) = connected c"
  "closed (saveProgress k r acc n c) = closed c"
  "disconnected (saveProgress k r acc n c) = disconnected c"
  "reconnectTimer (saveProgress k r acc n c) = reconnectTimer c"
  "backoffMs (saveProgress k r acc n c) = backoffMs c"
  "connectPromise (saveProgress k r acc n c) = connectPromise c"
  "lastSeq (saveProgress k r acc n c) = lastSeq c"
  "now (saveProgress k r acc n c) = now c"
  "timers (saveProgress k r acc n c) = timers c"
  "nextTimer (saveProgress k r acc n c) = nextTimer c"
  "sockets (saveProgress k r acc n c) = sockets c"
  "sent (saveProgress k r acc n c) = sent c"
  "runs (saveProgress k r acc n c) = runs c"
  "connectWaiters (saveProgress k r acc n c) = connectWaiters c"
  "connectResults (saveProgress k r acc n c) = connectResults c"
  "requestResults (saveProgress k r acc n c) = requestResults c"
  "microtasks (saveProgress k r acc n c) = microtasks c"
  by (simp_all add: saveProgress_def logger_def)

lemma clearProgress_frame [simp]:
  "ws (clearProgress k c) = ws c"
  "pending (clearProgress k c) = pending c"
  "chatListeners (clearProgress k c) = chatListeners c"
  "connected (clearProgress k c) = connected c"
  "closed (clearProgress k c) = closed c"
  "disconnected (clearProgress k c) = disconnected c"
  "reconnectTimer (clearProgress k c) = reconnectTimer c"
  "backoffMs (clearProgress k c) = backoffMs c"
  "connectPromise (clearProgress k c) = connectPromise c"
  "lastSeq (clearProgress k c) = lastSeq c"
  "now (clearProgress k c) = now c"
  "timers (clearProgress k c) = timers c"
  "nextTimer (clearProgress k c) = nextTimer c"
  "sockets (clearProgress k c) = sockets c"
  "sent (clearProgress k c) = sent c"
  "logs (clearProgress k c) = logs c"
  "runs (clearProgress k c) = runs c"
  "connectWaiters (clearProgress k c) = connectWaiters c"
  "connectResults (clearProgress k c) = connectResults c"
  "requestResults (clearProgress k c) = requestResults c"
  "microtasks (clearProgress k c) = microtasks c"
  by (simp_all add: clearProgress_def)

lemma cleanupExpiredProgress_frame [simp]:
  "ws (cleanupExpiredProgress c) = ws c"
  "pending (cleanupExpiredProgress c) = pending c"
  "chatListeners (cleanupExpiredProgress c) = chatListeners c"
  "connected (cleanupExpiredProgress c) = connected c"
  "closed (cleanupExpiredProgress c) = closed c"
  "disconnected (cleanupExpiredProgress c) = disconnected c"
  "reconnectTimer (cleanupExpiredProgress c) = reconnectTimer c"
  "backoffMs (cleanupExpiredProgress c) = backoffMs c"
  "connectPromise (cleanupExpiredProgress c) = connectPromise c"
  "lastSeq (cleanupExpiredProgress c) = lastSeq c"
  "now (cleanupExpiredProgress c) = now c"
  "timers (cleanupExpiredProgress c) = timers c"
  "nextTimer (cleanupExpiredProgress c) = nextTimer c"
  "sockets (cleanupExpiredProgress c) = sockets c"
  "sent (cleanupExpiredProgress c) = sent c"
  "runs (cleanupExpiredProgress c) = runs c"
  "connectWaiters (cleanupExpiredProgress c) = connectWaiters c"
  "connectResults (cleanupExpiredProgress c) = connectResults c"
  "requestResults (cleanupExpiredProgress c) = requestResults c"
  "microtasks (cleanupExpiredProgress c) = microtasks c"
  by (simp_all add: cleanupExpiredProgress_def)

lemma getProgress_frame [simp]:
  "ws (snd (getProgress k c)) = ws c"
  "pending (snd (getProgress k c)) = pending c"
  "chatListeners (snd (getProgress k c)) = chatListeners c"
  "connected (snd (getProgress k c)) = connected c"
  "closed (snd (getProgress k c)) = closed c"
  "disconnected (snd (getProgress k c)) = disconnected c"
  "reconnectTimer (snd (getProgress k c)) = reconnectTimer c"
  "backoffMs (snd (getProgress k c)) = backoffMs c"
  "connectPromise (snd (getProgress k c)) = connectPromise c"
  "lastSeq (snd (getProgress k c)) = lastSeq c"
  "now (snd (getProgress k c)) = now c"
  "timers (snd (getProgress k c)) = timers c"
  "nextTimer (snd (getProgress k c)) = nextTimer c"
  "sockets (snd (getProgress k c)) = sockets c"
  "sent (snd (getProgress k c)) = sent c"
  "runs (snd (getProgress k c)) = runs c"
  "connectWaiters (snd (getProgress k c)) = connectWaiters c"
  "connectResults (snd (getProgress k c)) = connectResults c"
  "requestResults (snd (getProgress k c)) = requestResults c"
  "microtasks (snd (getProgress k c)) = microtasks c"
  by (simp_all add: getProgress_def Let_def)

lemma listener_frame [simp]:
  "ws (listener r evt c) = ws c"
  "pending (listener r evt c) = pending c"
  "chatListeners (listener r evt c) = chatListeners c"
  "connected (listener r evt c) = connected c"
  "closed (listener r evt c) = closed c"
  "disconnected (listener r evt c) = disconnected c"
  "reconnectTimer (listener r evt c) = reconnectTimer c"
  "backoffMs (listener r evt c) = backoffMs c"
  "connectPromise (listener r evt c) = connectPromise c"
  "lastSeq (listener r evt c) = lastSeq c"
  "now (listener r evt c) = now c"
  "timers (listener r evt c) = timers c"
  "nextTimer (listener r evt c) = nextTimer c"
  "sockets (listener r evt c) = sockets c"
  "sent (listener r evt c) = sent c"
  "connectWaiters (listener r evt c) = connectWaiters c"
  "connectResults (listener r evt c) = connectResults c"
  "requestResults (listener r evt c) = requestResults c"
  by (cases "map_of (runs c) r"; simp add: listener_def Let_def)+

lemma finish_frame [simp]:
  "ws (finish r v ph c) = ws c"
  "pending (finish r v ph c) = pending c"
  "connected (finish r v ph c) = connected c"
  "closed (finish r v ph c) = closed c"
  "disconnected (finish r v ph c) = disconnected c"
  "reconnectTimer (finish r v ph c) = reconnectTimer c"
  "backoffMs (finish r v ph c) = backoffMs c"
  "connectPromise (finish r v ph c) = connectPromise c"
  "lastSeq (finish r v ph c) = lastSeq c"
  "sessionProgress (finish r v ph c) = sessionProgress c"
  "now (finish r v ph c) = now c"
  "timers (finish r v ph c) = timers c"
  "nextTimer (finish r v ph c) = nextTimer c"
  "sockets (finish r v ph c) = sockets c"
  "sent (finish r v ph c) = sent c"
  "logs (finish r v ph c) = logs c"
  "connectWaiters (finish r v ph c) = connectWaiters c"
  "connectResults (finish r v ph c) = connectResults c"
  "requestResults (finish r v ph c) = requestResults c"
  "microtasks (finish r v ph c) = microtasks c"
  by (simp_all add: finish_def)

lemma complete_frame [simp]:
  "ws (complete r v c) = ws c"
  "pending (complete r v c) = pending c"
  "connected (complete r v c) = connected c"
  "closed (complete r v c) = closed c"
  "disconnected (complete r v c) = disconnected c"
  "reconnectTimer (complete r v c) = reconnectTimer c"
  "backoffMs (complete r v c) = backoffMs c"
  "connectPromise (complete r v c) = connectPromise c"
  "lastSeq (complete r v c) = lastSeq c"
  "sessionProgress (complete r v c) = sessionProgress c"
  "now (complete r v c) = now c"
  "timers (complete r v c) = timers c"
  "nextTimer (complete r v c) = nextTimer c"
  "sockets (complete r v c) = sockets c"
  "sent (complete r v c) = sent c"
  "connectWaiters (complete r v c) = connectWaiters c"
  "connectResults (complete r v c) = connectResults c"
  "requestResults (complete r v c) = requestResults c"
  "microtasks (complete r v c) = microtasks c"
  by (simp_all add: complete_def)

lemma flush_frame [simp]:
  "ws (flush r v c) = ws c"
  "pending (flush r v c) = pending c"
  "connected (flush r v c) = connected c"
  "closed (flush r v c) = closed c"
  "disconnected (flush r v c) = disconnected c"
  "reconnectTimer (flush r v c) = reconnectTimer c"
  "backoffMs (flush r v c) = backoffMs c"
  "connectPromise (flush r v c) = connectPromise c"
  "lastSeq (flush r v c) = lastSeq c"
  "sessionProgress (flush r v c) = sessionProgress c"
  "now (flush r v c) = now c"
  "timers (flush r v c) = timers c"
  "nextTimer (flush r v c) = nextTimer c"
  "sockets (flush r v c) = sockets c"
  "sent (flush r v c) = sent c"
  "connectWaiters (flush r v c) = connectWaiters c"
  "connectResults (flush r v c) = connectResults c"
  "requestResults (flush r v c) = requestResults c"
  "microtasks (flush r v c) = microtasks c"
  by (simp_all add: flush_def)

lemma loop_head_frame [simp]:
  "ws (loop_head r v c) = ws c"
  "pending (loop_head r v c) = pending c"
  "connected (loop_head r v c) = connected c"
  "closed (loop_head r v c) = closed c"
  "disconnected (loop_head r v c) = disconnected c"
  "reconnectTimer (loop_head r v c) = reconnectTimer c"
  "backoffMs (loop_head r v c) = backoffMs c"
  "connectPromise (loop_head r v c) = connectPromise c"
  "lastSeq (loop_head r v c) = lastSeq c"
  "sessionProgress (loop_head r v c) = sessionProgress c"
  "now (loop_head r v c) = now c"
  "timers (loop_head r v c) = timers c"
  "nextTimer (loop_head r v c) = nextTimer c"
  "sockets (loop_head r v c) = sockets c"
  "sent (loop_head r v c) = sent c"
  "connectWaiters (loop_head r v c) = connectWaiters c"
  "connectResults (loop_head r v c) = connectResults c"
  "requestResults (loop_head r v c) = requestResults c"
  by (simp_all add: loop_head_def)

lemma after_await_frame [simp]:
  "ws (after_await r c) = ws c"
  "pending (after_await r c) = pending c"
  "connected (after_await r c) = connected c"
  "closed (after_await r c) = closed c"
  "disconnected (after_await r c) = disconnected c"
  "reconnectTimer (after_await r c) = reconnectTimer c"
  "backoffMs (after_await r c) = backoffMs c"
  "connectPromise (after_await r c) = connectPromise c"
  "lastSeq (after_await r c) = lastSeq c"
  "sessionProgress (after_await r c) = sessionProgress c"
  "now (after_await r c) = now c"
  "timers (after_await r c) = timers c"
  "nextTimer (after_await r c) = nextTimer c"
  "sockets (after_await r c) = sockets c"
  "sent (after_await r c) = sent c"
  "connectWaiters (after_await r c) = connectWaiters c"
  "connectResults (after_await r c) = connectResults c"
  "requestResults (after_await r c) = requestResults c"
  "microtasks (after_await r c) = microtasks c"
  by (simp_all add: after_await_def split: option.split)

lemma chat_send_settled_frame [simp]:
  "ws (chat_send_settled r out c) = ws c"
  "pending (chat_send_settled r out c) = pending c"
  "connected (chat_send_settled r out c) = connected c"
  "closed (chat_send_settled r out c) = closed c"
  "disconnected (chat_send_settled r out c) = disconnected c"
  "reconnectTimer (chat_send_settled r out c) = reconnectTimer c"
  "backoffMs (chat_send_settled r out c) = backoffMs c"
  "connectPromise (chat_send_settled r out c) = connectPromise c"
  "lastSeq (chat_send_settled r out c) = lastSeq c"
  "sessionProgress (chat_send_settled r out c) = sessionProgress c"
  "now (chat_send_settled r out c) = now c"
  "timers (chat_send_settled r out c) = timers c"
  "nextTimer (chat_send_settled r out c) = nextTimer c"
  "sockets (chat_send_settled r out c) = sockets c"
  "sent (chat_send_settled r out c) = sent c"
  "connectWaiters (chat_send_settled r out c) = connectWaiters c"
  "connectResults (chat_send_settled r out c) = connectResults c"
  "requestResults (chat_send_settled r out c) = requestResults c"
  by (simp_all add: chat_send_settled_def split: option.split outcome.split)

lemma next_call_frame [simp]:
  "ws (next_call r c) = ws c"
  "pending (next_call r c) = pending c"
  "connected (next_call r c) = connected c"
  "closed (next_call r c) = closed c"
  "disconnected (next_call r c) = disconnected c"
  "reconnectTimer (next_call r c) = reconnectTimer c"
  "backoffMs (next_call r c) = backoffMs c"
  "connectPromise (next_call r c) = connectPromise c"
  "lastSeq (next_call r c) = lastSeq c"
  "sessionProgress (next_call r c) = sessionProgress c"
  "now (next_call r c) = now c"
  "timers (next_call r c) = timers c"
  "nextTimer (next_call r c) = nextTimer c"
  "sockets (next_call r c) = sockets c"
  "sent (next_call r c) = sent c"
  "connectWaiters (next_call r c) = connectWaiters c"
  "connectResults (next_call r c) = connectResults c"
  "requestResults (next_call r c) = requestResults c"
  by (simp_all add: next_call_def split: option.split)

lemma request_frame [simp]:
  "ws (request m aw i c) = ws c"
  "chatListeners (request m aw i c) = chatListeners c"
  "connected (request m aw i c) = connected c"
  "closed (request m aw i c) = closed c"
  "disconnected (request m aw i c) = disconnected c"
  "reconnectTimer (request m aw i c) = reconnectTimer c"
  "backoffMs (request m aw i c) = backoffMs c"
  "connectPromise (request m aw i c) = connectPromise c"
  "lastSeq (request m aw i c) = lastSeq c"
  "sessionProgress (request m aw i c) = sessionProgress c"
  "now (request m aw i c) = now c"
  "sockets (request m aw i c) = sockets c"
  "logs (request m aw i c) = logs c"
  "runs (request m aw i c) = runs c"
  "connectWaiters (request m aw i c) = connectWaiters c"
  "connectResults (request m aw i c) = connectResults c"
  "requestResults (request m aw i c) = requestResults c"
  by (simp_all add: request_def setTimeout_def split: option.split)

lemma pending_settle_frame [simp]:
  "ws (pending_settle p out c) = ws c"
  "pending (pending_settle p out c) = pending c"
  "chatListeners (pending_settle p out c) = chatListeners c"
  "connected (pending_settle p out c) = connected c"
  "closed (pending_settle p out c) = closed c"
  "disconnected (pending_settle p out c) = disconnected c"
  "reconnectTimer (pending_settle p out c) = reconnectTimer c"
  "backoffMs (pending_settle p out c) = backoffMs c"
  "connectPromise (pending_settle p out c) = connectPromise c"
  "lastSeq (pending_settle p out c) = lastSeq c"
  "sessionProgress (pending_settle p out c) = sessionProgress c"
  "now (pending_settle p out c) = now c"
  "nextTimer (pending_settle p out c) = nextTimer c"
  "sockets (pending_settle p out c) = sockets c"
  "sent (pending_settle p out c) = sent c"
  "logs (pending_settle p out c) = logs c"
  "runs (pending_settle p out c) = runs c"
  "connectWaiters (pending_settle p out c) = connectWaiters c"
  "connectResults (pending_settle p out c) = connectResults c"
  "requestResults (pending_settle p out c) = requestResults c"
  by (simp_all add: pending_settle_def)

lemma request_timeout_frame [simp]:
  "ws (request_timeout i m aw c) = ws c"
  "chatListeners (request_timeout i m aw c) = chatListeners c"
  "connected (request_timeout i m aw c) = connected c"
  "closed (request_timeout i m aw c) = closed c"
  "disconnected (request_timeout i m aw c) = disconnected c"
  "reconnectTimer (request_timeout i m aw c) = reconnectTimer c"
  "backoffMs (request_timeout i m aw c) = backoffMs c"
  "connectPromise (request_timeout i m aw c) = connectPromise c"
  "lastSeq (request_timeout i m aw c) = lastSeq c"
  "sessionProgress (request_timeout i m aw c) = sessionProgress c"
  "now (request_timeout i m aw c) = now c"
  "timers (request_timeout i m aw c) = timers c"
  "nextTimer (request_timeout i m aw c) = nextTimer c"
  "sockets (request_timeout i m aw c) = sockets c"
  "sent (request_timeout i m aw c) = sent c"
  "logs (request_timeout i m aw c) = logs c"
  "runs (request_timeout i m aw c) = runs c"
  "connectWaiters (request_timeout i m aw c) = connectWaiters c"
  "connectResults (request_timeout i m aw c) = connectResults c"
  "requestResults (request_timeout i m aw c) = requestResults c"
  by (simp_all add: request_timeout_def)

lemma fold_pending_settle_frame [simp]:
  "ws (fold (\<lambda>(i, p). pending_settle p out) ps c) = ws c"
  "pending (fold (\<lambda>(i, p). pending_settle p out) ps c) = pending c"
  "chatListeners (fold (\<lambda>(i, p). pending_settle p out) ps c) = chatListeners c"
  "connected (fold (\<lambda>(i, p). pending_settle p out) ps c) = connected c"
  "closed (fold (\<lambda>(i, p). pending_settle p out) ps c) = closed c"
  "disconnected (fold (\<lambda>(i, p). pending_settle p out) ps c) = disconnected c"
  "reconnectTimer (fold (\<lambda>(i, p). pending_settle p out) ps c) = reconnectTimer c"
  "backoffMs (fold (\<lambda>(i, p). pending_settle p out) ps c) = backoffMs c"
  "connectPromise (fold (\<lambda>(i, p). pending_settle p out) ps c) = connectPromise c"
  "lastSeq (fold (\<lambda>(i, p). pending_settle p out) ps c) = lastSeq c"
  "sessionProgress (fold (\<lambda>(i, p). pending_settle p out) ps c) = sessionProgress c"
  "now (fold (\<lambda>(i, p). pending_settle p out) ps c) = now c"
  "nextTimer (fold (\<lambda>(i, p). pending_settle p out) ps c) = nextTimer c"
  "sockets (fold (\<lambda>(i, p). pending_settle p out) ps c) = sockets c"
  "sent (fold (\<lambda>(i, p). pending_settle p out) ps c) = sent c"
  "logs (fold (\<lambda>(i, p). pending_settle p out) ps c) = logs c"
  "runs (fold (\<lambda>(i, p). pending_settle p out) ps c) = runs c"
  "connectWaiters (fold (\<lambda>(i, p). pending_settle p out) ps c) = connectWaiters c"
  "connectResults (fold (\<lambda>(i, p). pending_settle p out) ps c) = connectResults c"
  "requestResults (fold (\<lambda>(i, p). pending_settle p out) ps c) = requestResults c"
  by (induction ps arbitrary: c; simp split: prod.split; fail)+

lemma flushPending_frame [simp]:
  "ws (flushPending e c) = ws c"
  "chatListeners (flushPending e c) = chatListeners c"
  "connected (flushPending e c) = connected c"
  "closed (flushPending e c) = closed c"
  "disconnected (flushPending e c) = disconnected c"
  "reconnectTimer (flushPending e c) = reconnectTimer c"
  "backoffMs (flushPending e c) = backoffMs c"
  "connectPromise (flushPending e c) = connectPromise c"
  "lastSeq (flushPending e c) = lastSeq c"
  "sessionProgress (flushPending e c) = sessionProgress c"
  "now (flushPending e c) = now c"
  "nextTimer (flushPending e c) = nextTimer c"
  "sockets (flushPending e c) = sockets c"
  "sent (flushPending e c) = sent c"
  "logs (flushPending e c) = logs c"
  "runs (flushPending e c) = runs c"
  "connectWaiters (flushPending e c) = connectWaiters c"
  "connectResults (flushPending e c) = connectResults c"
  "requestResults (flushPending e c) = requestResults c"
  by (simp_all add: flushPending_def)

lemma chatStream_frame [simp]:
  "ws (chatStream r i k c) = ws c"
  "connected (chatStream r i k c) = connected c"
  "closed (chatStream r i k c) = closed c"
  "disconnected (chatStream r i k c) = disconnected c"
  "reconnectTimer (chatStream r i k c) = reconnectTimer c"
  "backoffMs (chatStream r i k c) = backoffMs c"
  "connectPromise (chatStream r i k c) = connectPromise c"
  "lastSeq (chatStream r i k c) = lastSeq c"
  "now (chatStream r i k c) = now c"
  "sockets (chatStream r i k c) = sockets c"
  "connectWaiters (chatStream r i k c) = connectWaiters c"
  "connectResults (chatStream r i k c) = connectResults c"
  "requestResults (chatStream r i k c) = requestResults c"
  by (simp_all add: chatStream_def getProgress_def Let_def split: option.split)

lemma doConnect_frame [simp]:
  "pending (snd (doConnect c)) = pending c"
  "chatListeners (snd (doConnect c)) = chatListeners c"
  "connected (snd (doConnect c)) = connected c"
  "closed (snd (doConnect c)) = closed c"
  "reconnectTimer (snd (doConnect c)) = reconnectTimer c"
  "backoffMs (snd (doConnect c)) = backoffMs c"
  "connectPromise (snd (doConnect c)) = connectPromise c"
  "lastSeq (snd (doConnect c)) = lastSeq c"
  "sessionProgress (snd (doConnect c)) = sessionProgress c"
  "now (snd (doConnect c)) = now c"
  "timers (snd (doConnect c)) = timers c"
  "nextTimer (snd (doConnect c)) = nextTimer c"
  "sent (snd (doConnect c)) = sent c"
  "runs (snd (doConnect c)) = runs c"
  "connectWaiters (snd (doConnect c)) = connectWaiters c"
  "connectResults (snd (doConnect c)) = connectResults c"
  "requestResults (snd (doConnect c)) = requestResults c"
  "microtasks (snd (doConnect c)) = microtasks c"
  by (simp_all add: doConnect_def Let_def)

lemma connect_frame [simp]:
  "pending (snd (connect c)) = pending c"
  "chatListeners (snd (connect c)) = chatListeners c"
  "connected (snd (connect c)) = connected c"
  "closed (snd (connect c)) = closed c"
  "reconnectTimer (snd (connect c)) = reconnectTimer c"
  "backoffMs (snd (connect c)) = backoffMs c"
  "lastSeq (snd (connect c)) = lastSeq c"
  "sessionProgress (snd (connect c)) = sessionProgress c"
  "now (snd (connect c)) = now c"
  "timers (snd (connect c)) = timers c"
  "nextTimer (snd (connect c)) = nextTimer c"
  "sent (snd (connect c)) = sent c"
  "runs (snd (connect c)) = runs c"
  "connectWaiters (snd (connect c)) = connectWaiters c"
  "connectResults (snd (connect c)) = connectResults c"
  "requestResults (snd (connect c)) = requestResults c"
  "microtasks (snd (connect c)) = microtasks c"
  by (simp_all add: connect_def doConnect_def Let_def split: option.split)

lemma deliver_frame [simp]:
  "ws (deliver k out c) = ws c"
  "pending (deliver k out c) = pending c"
  "chatListeners (deliver k out c) = chatListeners c"
  "connected (deliver k out c) = connected c"
  "closed (deliver k out c) = closed c"
  "disconnected (deliver k out c) = disconnected c"
  "reconnectTimer (deliver k out c) = reconnectTimer c"
  "backoffMs (deliver k out c) = backoffMs c"
  "connectPromise (deliver k out c) = connectPromise c"
  "lastSeq (deliver k out c) = lastSeq c"
  "sessionProgress (deliver k out c) = sessionProgress c"
  "now (deliver k out c) = now c"
  "timers (deliver k out c) = timers c"
  "nextTimer (deliver k out c) = nextTimer c"
  "sockets (deliver k out c) = sockets c"
  "sent (deliver k out c) = sent c"
  "runs (deliver k out c) = runs c"
  "connectWaiters (deliver k out c) = connectWaiters c"
  "requestResults (deliver k out c) = requestResults c"
  "microtasks (deliver k out c) = microtasks c"
  by (simp_all add: deliver_def Let_def split: caller.split outcome.split)

lemma call_connect_frame [simp]:
  "pending (call_connect k c) = pending c"
  "chatListeners (call_connect k c) = chatListeners c"
  "connected (call_connect k c) = connected c"
  "closed (call_connect k c) = closed c"
  "reconnectTimer (call_connect k c) = reconnectTimer c"
  "backoffMs (call_connect k c) = backoffMs c"
  "lastSeq (call_connect k c) = lastSeq c"
  "sessionProgress (call_connect k c) = sessionProgress c"
  "now (call_connect k c) = now c"
  "timers (call_connect k c) = timers c"
  "nextTimer (call_connect k c) = nextTimer c"
  "sent (call_connect k c) = sent c"
  "runs (call_connect k c) = runs c"
  "requestResults (call_connect k c) = requestResults c"
  "microtasks (call_connect k c) = microtasks c"
  by (simp_all add: call_connect_def connect_def doConnect_def Let_def split: option.split)

lemma fold_deliver_frame [simp]:
  "ws (fold (\<lambda>w. deliver (fst w) out) wl c) = ws c"
  "pending (fold (\<lambda>w. deliver (fst w) out) wl c) = pending c"
  "chatListeners (fold (\<lambda>w. deliver (fst w) out) wl c) = chatListeners c"
  "connected (fold (\<lambda>w. deliver (fst w) out) wl c) = connected c"
  "closed (fold (\<lambda>w. deliver (fst w) out) wl c) = closed c"
  "disconnected (fold (\<lambda>w. deliver (fst w) out) wl c) = disconnected c"
  "reconnectTimer (fold (\<lambda>w. deliver (fst w) out) wl c) = reconnectTimer c"
  "backoffMs (fold (\<lambda>w. deliver (fst w) out) wl c) = backoffMs c"
  "connectPromise (fold (\<lambda>w. deliver (fst w) out) wl c) = connectPromise c"
  "lastSeq (fold (\<lambda>w. deliver (fst w) out) wl c) = lastSeq c"
  "sessionProgress (fold (\<lambda>w. deliver (fst w) out) wl c) = sessionProgress c"
  "now (fold (\<lambda>w. deliver (fst w) out) wl c) = now c"
  "timers (fold (\<lambda>w. deliver (fst w) out) wl c) = timers c"
  "nextTimer (fold (\<lambda>w. deliver (fst w) out) wl c) = nextTimer c"
  "sockets (fold (\<lambda>w. deliver (fst w) out) wl c) = sockets c"
  "sent (fold (\<lambda>w. deliver (fst w) out) wl c) = sent c"
  "runs (fold (\<lambda>w. deliver (fst w) out) wl c) = runs c"
  "connectWaiters (fold (\<lambda>w. deliver (fst w) out) wl c) = connectWaiters c"
  "requestResults (fold (\<lambda>w. deliver (fst w) out) wl c) = requestResults c"
  "microtasks (fold (\<lambda>w. deliver (fst w) out) wl c) = microtasks c"
  by (induction wl arbitrary: c; simp; fail)+

lemma connect_settled_frame [simp]:
  "ws (connect_settled s out c) = ws c"
  "pending (connect_settled s out c) = pending c"
  "chatListeners (connect_settled s out c) = chatListeners c"
  "connected (connect_settled s out c) = connected c"
  "closed (connect_settled s out c) = closed c"
  "disconnected (connect_settled s out c) = disconnected c"
  "reconnectTimer (connect_settled s out c) = reconnectTimer c"
  "backoffMs (connect_settled s out c) = backoffMs c"
  "lastSeq (connect_settled s out c) = lastSeq c"
  "sessionProgress (connect_settled s out c) = sessionProgress c"
  "now (connect_settled s out c) = now c"
  "timers (connect_settled s out c) = timers c"
  "nextTimer (connect_settled s out c) = nextTimer c"
  "sockets (connect_settled s out c) = sockets c"
  "sent (connect_settled s out c) = sent c"
  "runs (connect_settled s out c) = runs c"
  "requestResults (connect_settled s out c) = requestResults c"
  "microtasks (connect_settled s out c) = microtasks c"
  by (simp_all add: connect_settled_def Let_def)

lemma track_seq_frame [simp]:
  "ws (track_seq n c) = ws c"
  "pending (track_seq n c) = pending c"
  "chatListeners (track_seq n c) = chatListeners c"
  "connected (track_seq n c) = connected c"
  "closed (track_seq n c) = closed c"
  "disconnected (track_seq n c) = disconnected c"
  "reconnectTimer (track_seq n c) = reconnectTimer c"
  "backoffMs (track_seq n c) = backoffMs c"
  "connectPromise (track_seq n c) = connectPromise c"
  "sessionProgress (track_seq n c) = sessionProgress c"
  "now (track_seq n c) = now c"
  "timers (track_seq n c) = timers c"
  "nextTimer (track_seq n c) = nextTimer c"
  "sockets (track_seq n c) = sockets c"
  "sent (track_seq n c) = sent c"
  "runs (track_seq n c) = runs c"
  "connectWaiters (track_seq n c) = connectWaiters c"
  "connectResults (track_seq n c) = connectResults c"
  "requestResults (track_seq n c) = requestResults c"
  "microtasks (track_seq n c) = microtasks c"
  by (simp_all add: track_seq_def split: option.split)

lemma route_event_frame [simp]:
  "ws (route_event ev payload c) = ws c"
  "pending (route_event ev payload c) = pending c"
  "chatListeners (route_event ev payload c) = chatListeners c"
  "connected (route_event ev payload c) = connected c"
  "closed (route_event ev payload c) = closed c"
  "disconnected (route_event ev payload c) = disconnected c"
  "reconnectTimer (route_event ev payload c) = reconnectTimer c"
  "backoffMs (route_event ev payload c) = backoffMs c"
  "connectPromise (route_event ev payload c) = connectPromise c"
  "lastSeq (route_event ev payload c) = lastSeq c"
  "now (route_event ev payload c) = now c"
  "timers (route_event ev payload c) = timers c"
  "nextTimer (route_event ev payload c) = nextTimer c"
  "sockets (route_event ev payload c) = sockets c"
  "sent (route_event ev payload c) = sent c"
  "connectWaiters (route_event ev payload c) = connectWaiters c"
  "connectResults (route_event ev payload c) = connectResults c"
  "requestResults (route_event ev payload c) = requestResults c"
  by (simp_all add: route_event_def split: option.split)

lemma handleMessage_frame [simp]:
  "ws (handleMessage raw c) = ws c"
  "chatListeners (handleMessage raw c) = chatListeners c"
  "connected (handleMessage raw c) = connected c"
  "closed (handleMessage raw c) = closed c"
  "disconnected (handleMessage raw c) = disconnected c"
  "reconnectTimer (handleMessage raw c) = reconnectTimer c"
  "backoffMs (handleMessage raw c) = backoffMs c"
  "connectPromise (handleMessage raw c) = connectPromise c"
  "now (handleMessage raw c) = now c"
  "nextTimer (handleMessage raw c) = nextTimer c"
  "sockets (handleMessage raw c) = sockets c"
  "sent (handleMessage raw c) = sent c"
  "connectWaiters (handleMessage raw c) = connectWaiters c"
  "connectResults (handleMessage raw c) = connectResults c"
  "requestResults (handleMessage raw c) = requestResults c"
  by (simp_all add: handleMessage_def split: option.split frame.split)

lemma scheduleReconnect_frame [simp]:
  "ws (scheduleReconnect c) = ws c"
  "pending (scheduleReconnect c) = pending c"
  "chatListeners (scheduleReconnect c) = chatListeners c"
  "connected (scheduleReconnect c) = connected c"
  "closed (scheduleReconnect c) = closed c"
  "disconnected (scheduleReconnect c) = disconnected c"
  "connectPromise (scheduleReconnect c) = connectPromise c"
  "lastSeq (scheduleReconnect c) = lastSeq c"
  "sessionProgress (scheduleReconnect c) = sessionProgress c"
  "now (scheduleReconnect c) = now c"
  "sockets (scheduleReconnect c) = sockets c"
  "sent (scheduleReconnect c) = sent c"
  "logs (scheduleReconnect c) = logs c"
  "runs (scheduleReconnect c) = runs c"
  "connectWaiters (scheduleReconnect c) = connectWaiters c"
  "connectResults (scheduleReconnect c) = connectResults c"
  "requestResults (scheduleReconnect c) = requestResults c"
  "microtasks (scheduleReconnect c) = microtasks c"
  by (simp_all add: scheduleReconnect_def setTimeout_def split: option.split)

lemma fold_listener_frame [simp]:
  "ws (fold (\<lambda>r c'. listener r (f r) (logger (g r) c')) rs c) = ws c"
  "pending (fold (\<lambda>r c'. listener r (f r) (logger (g r) c')) rs c) = pending c"
  "chatListeners (fold (\<lambda>r c'. listener r (f r) (logger (g r) c')) rs c) = chatListeners c"
  "connected (fold (\<lambda>r c'. listener r (f r) (logger (g r) c')) rs c) = connected c"
  "closed (fold (\<lambda>r c'. listener r (f r) (logger (g r) c')) rs c) = closed c"
  "disconnected (fold (\<lambda>r c'. listener r (f r) (logger (g r) c')) rs c) = disconnected c"
  "reconnectTimer (fold (\<lambda>r c'. listener r (f r) (logger (g r) c')) rs c) = reconnectTimer c"
  "backoffMs (fold (\<lambda>r c'. listener r (f r) (logger (g r) c')) rs c) = backoffMs c"
  "connectPromise (fold (\<lambda>r c'. listener r (f r) (logger (g r) c')) rs c) = connectPromise c"
  "lastSeq (fold (\<lambda>r c'. listener r (f r) (logger (g r) c')) rs c) = lastSeq c"
  "now (fold (\<lambda>r c'. listener r (f r) (logger (g r) c')) rs c) = now c"
  "timers (fold (\<lambda>r c'. listener r (f r) (logger (g r) c')) rs c) = timers c"
  "nextTimer (fold (\<lambda>r c'. listener r (f r) (logger (g r) c')) rs c) = nextTimer c"
  "sockets (fold (\<lambda>r c'. listener r (f r) (logger (g r) c')) rs c) = sockets c"
  "sent (fold (\<lambda>r c'. listener r (f r) (logger (g r) c')) rs c) = sent c"
  "connectWaiters (fold (\<lambda>r c'. listener r (f r) (logger (g r) c')) rs c) = connectWaiters c"
  "connectResults (fold (\<lambda>r c'. listener r (f r) (logger (g r) c')) rs c) = connectResults c"
  "requestResults (fold (\<lambda>r c'. listener r (f r) (logger (g r) c')) rs c) = requestResults c"
  by (induction rs arbitrary: c; simp; fail)+

lemma handleClose_frame [simp]:
  "chatListeners (handleClose c) = chatListeners c"
  "closed (handleClose c) = closed c"
  "connectPromise (handleClose c) = connectPromise c"
  "lastSeq (handleClose c) = lastSeq c"
  "now (handleClose c) = now c"
  "sockets (handleClose c) = sockets c"
  "sent (handleClose c) = sent c"
  "connectWaiters (handleClose c) = connectWaiters c"
  "connectResults (handleClose c) = connectResults c"
  "requestResults (handleClose c) = requestResults c"
  by (simp_all add: handleClose_def Let_def)

lemma reconnect_fired_frame [simp]:
  "pending (reconnect_fired c) = pending c"
  "chatListeners (reconnect_fired c) = chatListeners c"
  "connected (reconnect_fired c) = connected c"
  "closed (reconnect_fired c) = closed c"
  "backoffMs (reconnect_fired c) = backoffMs c"
  "lastSeq (reconnect_fired c) = lastSeq c"
  "sessionProgress (reconnect_fired c) = sessionProgress c"
  "now (reconnect_fired c) = now c"
  "timers (reconnect_fired c) = timers c"
  "nextTimer (reconnect_fired c) = nextTimer c"
  "sent (reconnect_fired c) = sent c"
  "runs (reconnect_fired c) = runs c"
  "requestResults (reconnect_fired c) = requestResults c"
  "microtasks (reconnect_fired c) = microtasks c"
  by (simp_all add: reconnect_fired_def)

lemma close_frame [simp]:
  "chatListeners (close c) = chatListeners c"
  "connected (close c) = connected c"
  "disconnected (close c) = disconnected c"
  "backoffMs (close c) = backoffMs c"
  "connectPromise (close c) = connectPromise c"
  "lastSeq (close c) = lastSeq c"
  "sessionProgress (close c) = sessionProgress c"
  "now (close c) = now c"
  "nextTimer (close c) = nextTimer c"
  "sent (close c) = sent c"
  "logs (close c) = logs c"
  "runs (close c) = runs c"
  "connectWaiters (close c) = connectWaiters c"
  "connectResults (close c) = connectResults c"
  "requestResults (close c) = requestResults c"
  by (simp_all add: close_def Let_def split: option.split)

lemma onOpen_frame [simp]:
  "ws (onOpen s i c) = ws c"
  "chatListeners (onOpen s i c) = chatListeners c"
  "connected (onOpen s i c) = connected c"
  "closed (onOpen s i c) = closed c"
  "disconnected (onOpen s i c) = disconnected c"
  "reconnectTimer (onOpen s i c) = reconnectTimer c"
  "backoffMs (onOpen s i c) = backoffMs c"
  "connectPromise (onOpen s i c) = connectPromise c"
  "lastSeq (onOpen s i c) = lastSeq c"
  "sessionProgress (onOpen s i c) = sessionProgress c"
  "now (onOpen s i c) = now c"
  "sockets (onOpen s i c) = sockets c"
  "logs (onOpen s i c) = logs c"
  "runs (onOpen s i c) = runs c"
  "connectWaiters (onOpen s i c) = connectWaiters c"
  "connectResults (onOpen s i c) = connectResults c"
  "requestResults (onOpen s i c) = requestResults c"
  by (simp_all add: onOpen_def sendConnect_def)

lemma abortChat_frame [simp]:
  "ws (abortChat k i c) = ws c"
  "chatListeners (abortChat k i c) = chatListeners c"
  "connected (abortChat k i c) = connected c"
  "closed (abortChat k i c) = closed c"
  "disconnected (abortChat k i c) = disconnected c"
  "reconnectTimer (abortChat k i c) = reconnectTimer c"
  "backoffMs (abortChat k i c) = backoffMs c"
  "connectPromise (abortChat k i c) = connectPromise c"
  "lastSeq (abortChat k i c) = lastSeq c"
  "sessionProgress (abortChat k i c) = sessionProgress c"
  "now (abortChat k i c) = now c"
  "sockets (abortChat k i c) = sockets c"
  "logs (abortChat k i c) = logs c"
  "runs (abortChat k i c) = runs c"
  "connectWaiters (abortChat k i c) = connectWaiters c"
  "connectResults (abortChat k i c) = connectResults c"
  "requestResults (abortChat k i c) = requestResults c"
  by (simp_all add: abortChat_def)

lemma onOpen_settled_frame [simp]:
  "ws (onOpen_settled s out c) = ws c"
  "pending (onOpen_settled s out c) = pending c"
  "chatListeners (onOpen_settled s out c) = chatListeners c"
  "closed (onOpen_settled s out c) = closed c"
  "disconnected (onOpen_settled s out c) = disconnected c"
  "reconnectTimer (onOpen_settled s out c) = reconnectTimer c"
  "connectPromise (onOpen_settled s out c) = connectPromise c"
  "lastSeq (onOpen_settled s out c) = lastSeq c"
  "sessionProgress (onOpen_settled s out c) = sessionProgress c"
  "now (onOpen_settled s out c) = now c"
  "timers (onOpen_settled s out c) = timers c"
  "nextTimer (onOpen_settled s out c) = nextTimer c"
  "sent (onOpen_settled s out c) = sent c"
  "runs (onOpen_settled s out c) = runs c"
  "connectWaiters (onOpen_settled s out c) = connectWaiters c"
  "connectResults (onOpen_settled s out c) = connectResults c"
  "requestResults (onOpen_settled s out c) = requestResults c"
  by (simp_all add: onOpen_settled_def split: outcome.split)

lemma onError_frame [simp]:
  "ws (onError s e c) = ws c"
  "pending (onError s e c) = pending c"
  "chatListeners (onError s e c) = chatListeners c"
  "connected (onError s e c) = connected c"
  "closed (onError s e c) = closed c"
  "disconnected (onError s e c) = disconnected c"
  "reconnectTimer (onError s e c) = reconnectTimer c"
  "backoffMs (onError s e c) = backoffMs c"
  "connectPromise (onError s e c) = connectPromise c"
  "lastSeq (onError s e c) = lastSeq c"
  "sessionProgress (onError s e c) = sessionProgress c"
  "now (onError s e c) = now c"
  "timers (onError s e c) = timers c"
  "nextTimer (onError s e c) = nextTimer c"
  "sent (onError s e c) = sent c"
  "runs (onError s e c) = runs c"
  "connectWaiters (onError s e c) = connectWaiters c"
  "connectResults (onError s e c) = connectResults c"
  "requestResults (onError s e c) = requestResults c"
  by (simp_all add: onError_def Let_def)

lemma fire_frame [simp]:
  "chatListeners (fire i c) = chatListeners c"
  "connected (fire i c) = connected c"
  "closed (fire i c) = closed c"
  "backoffMs (fire i c) = backoffMs c"
  "lastSeq (fire i c) = lastSeq c"
  "sessionProgress (fire i c) = sessionProgress c"
  "now (fire i c) = now c"
  "nextTimer (fire i c) = nextTimer c"
  "sent (fire i c) = sent c"
  "runs (fire i c) = runs c"
  "requestResults (fire i c) = requestResults c"
  by (simp_all add: fire_def Let_def split: option.split timer_cb.split)

lemma run_task_frame [simp]:
  "ws (run_task t c) = ws c"
  "pending (run_task t c) = pending c"
  "closed (run_task t c) = closed c"
  "disconnected (run_task t c) = disconnected c"
  "reconnectTimer (run_task t c) = reconnectTimer c"
  "lastSeq (run_task t c) = lastSeq c"
  "sessionProgress (run_task t c) = sessionProgress c"
  "now (run_task t c) = now c"
  "timers (run_task t c) = timers c"
  "nextTimer (run_task t c) = nextTimer c"
  "sent (run_task t c) = sent c"
  by (simp_all add: run_task_def split: task.split awaiter.split)

subsection \<open>The queue of continuations\<close>





lemma run_task_microtasks:
  "\<exists>ts. microtasks (run_task t c) = microtasks c @ ts \<and> list_all queues_none ts"
proof (cases t)
  case (ReqSettled aw out)
  show ?thesis
  proof (cases aw)
    case (Handshake s)
    have "microtasks (onOpen_settled s out c) = microtasks c
        \<or> microtasks (onOpen_settled s out c) = microtasks c @ [ConnSettled s out]"
      by (cases out) (simp_all add: onOpen_settled_def settle_attempt_def enqueue_def)
    then show ?thesis
      using ReqSettled Handshake by (auto simp: run_task_def queues_none_def)
  next
    case (ChatSend r)
    have "microtasks (chat_send_settled r out c) = microtasks c
        \<or> microtasks (chat_send_settled r out c) = microtasks c @ [GenResume r]"
      by (simp add: chat_send_settled_def loop_head_def enqueue_def
          split: option.split outcome.split)
    then show ?thesis
      using ReqSettled ChatSend by (auto simp: run_task_def queues_none_def)
  next
    case (Outside k)
    then show ?thesis using ReqSettled by (simp add: run_task_def)
  qed
next
  case (ConnSettled s out)
  then show ?thesis by (simp add: run_task_def)
next
  case (GenResume r)
  then show ?thesis by (simp add: run_task_def)
qed

lemma run_task_queues_none: "queues_none t \<Longrightarrow> microtasks (run_task t c) = microtasks c"
  by (cases t) (simp_all add: queues_none_def run_task_def)

lemma fold_run_task_queues_none:
  "list_all queues_none ts \<Longrightarrow> microtasks (fold run_task ts c) = microtasks c"
  by (induction ts arbitrary: c) (simp_all add: run_task_queues_none)

lemma fold_run_task_microtasks:
  "\<exists>qs. microtasks (fold run_task ts c) = microtasks c @ qs \<and> list_all queues_none qs"
proof (induction ts arbitrary: c)
  case Nil
  then show ?case by simp
next
  case (Cons t ts)
  obtain q1 where q1: "microtasks (run_task t c) = microtasks c @ q1" "list_all queues_none q1"
    using run_task_microtasks by blast
  obtain q2 where q2: "microtasks (fold run_task ts (run_task t c)) = microtasks (run_task t c) @ q2"
      "list_all queues_none q2"
    using Cons.IH by blast
  show ?case
    by (rule exI[of _ "q1 @ q2"]) (simp add: q1 q2)
qed

lemma run_queued_queues_none: "list_all queues_none (microtasks (run_queued c))"
  using fold_run_task_microtasks[of "microtasks c" "c\<lparr>microtasks := []\<rparr>"]
  by (auto simp: run_queued_def)

lemma run_queued_twice_empty: "microtasks (run_queued (run_queued c)) = []"
  using run_queued_queues_none[of c]
  by (simp add: run_queued_def[of "run_queued c"] fold_run_task_queues_none)

lemma step_microtasks [simp]: "microtasks (step a c) = []"
  by (simp add: step_def run_queued_twice_empty)


text \<open>What no continuation touches.\<close>

lemma fold_run_task_frame [simp]:
  "ws (fold run_task ts c) = ws c"
  "pending (fold run_task ts c) = pending c"
  "closed (fold run_task ts c) = closed c"
  "disconnected (fold run_task ts c) = disconnected c"
  "reconnectTimer (fold run_task ts c) = reconnectTimer c"
  "lastSeq (fold run_task ts c) = lastSeq c"
  "sessionProgress (fold run_task ts c) = sessionProgress c"
  "now (fold run_task ts c) = now c"
  "timers (fold run_task ts c) = timers c"
  "nextTimer (fold run_task ts c) = nextTimer c"
  "sent (fold run_task ts c) = sent c"
  by (induction ts arbitrary: c; simp; fail)+

lemma run_queued_frame [simp]:
  "ws (run_queued c) = ws c"
  "pending (run_queued c) = pending c"
  "closed (run_queued c) = closed c"
  "disconnected (run_queued c) = disconnected c"
  "reconnectTimer (run_queued c) = reconnectTimer c"
  "lastSeq (run_queued c) = lastSeq c"
  "sessionProgress (run_queued c) = sessionProgress c"
  "now (run_queued c) = now c"
  "timers (run_queued c) = timers c"
  "nextTimer (run_queued c) = nextTimer c"
  "sent (run_queued c) = sent c"
  by (simp_all add: run_queued_def)

lemma step_frame [simp]:
  "ws (step a c) = ws (handle a c)"
  "pending (step a c) = pending (handle a c)"
  "closed (step a c) = closed (handle a c)"
  "disconnected (step a c) = disconnected (handle a c)"
  "reconnectTimer (step a c) = reconnectTimer (handle a c)"
  "lastSeq (step a c) = lastSeq (handle a c)"
  "sessionProgress (step a c) = sessionProgress (handle a c)"
  "now (step a c) = now (handle a c)"
  "timers (step a c) = timers (handle a c)"
  "nextTimer (step a c) = nextTimer (handle a c)"
  "sent (step a c) = sent (handle a c)"
  by (simp_all add: step_def)

subsection \<open>The timers\<close>

lemma list_all_update:
  "list_all P ps \<Longrightarrow> P (i, v) \<Longrightarrow> list_all P (AList.update i v ps)"
  by (induction ps) auto

lemma list_all_delete: "list_all P ps \<Longrightarrow> list_all P (AList.delete i ps)"
  by (induction ps) (auto simp: AList.delete_eq)

lemma reconnect_id_old:
  assumes "timers_inv ts n ps (Some t)"
  shows "t < n"
proof -
  have "t \<in> set (map t_id (filter (\<lambda>x. t_cb x = ReconnectCb) ts))"
    using assms by (simp add: timers_inv_def)
  then obtain x where "x \<in> set ts" "t_id x = t" by auto
  moreover have "list_all (\<lambda>x. t_id x < n) ts"
    using assms by (simp add: timers_inv_def)
  ultimately show ?thesis by (auto simp: list_all_iff)
qed

lemma timers_inv_request:
  assumes "timers_inv ts n ps rt"
  shows "timers_inv (ts @ [\<lparr>t_id = n, t_delay = d, t_due = u, t_cb = RequestTimeoutCb i m aw\<rparr>])
           (Suc n) (AList.update i \<lparr>timeoutId = n, awaiter = aw\<rparr> ps) rt"
proof -
  have old: "list_all (\<lambda>t. t_id t < n) ts" and dis: "distinct (map t_id ts)"
    and pend: "list_all (\<lambda>e. timeoutId (snd e) < n \<and> Some (timeoutId (snd e)) \<noteq> rt) ps"
    and rec: "map t_id (filter (\<lambda>t. t_cb t = ReconnectCb) ts) = (case rt of None \<Rightarrow> [] | Some t \<Rightarrow> [t])"
    using assms by (simp_all add: timers_inv_def)
  have fresh: "n \<notin> t_id ` set ts"
    using old by (auto simp: list_all_iff)
  have rt: "Some n \<noteq> rt"
    using reconnect_id_old[of ts n ps] assms by (cases rt) auto
  have p1: "list_all (\<lambda>e. timeoutId (snd e) < Suc n \<and> Some (timeoutId (snd e)) \<noteq> rt) ps"
    using pend by (auto simp: list_all_iff)
  have "list_all (\<lambda>e. timeoutId (snd e) < Suc n \<and> Some (timeoutId (snd e)) \<noteq> rt)
          (AList.update i \<lparr>timeoutId = n, awaiter = aw\<rparr> ps)"
    by (rule list_all_update[OF p1]) (simp add: rt)
  moreover have "list_all (\<lambda>t. t_id t < Suc n) ts"
    using old by (auto simp: list_all_iff)
  ultimately show ?thesis
    using dis rec fresh by (simp add: timers_inv_def)
qed

lemma timers_inv_filter:
  assumes inv: "timers_inv ts n ps rt"
    and keep: "\<And>t. rt = Some t \<Longrightarrow> keep t"
    and sub: "set ps' \<subseteq> set ps"
  shows "timers_inv (filter (\<lambda>x. keep (t_id x)) ts) n ps' rt"
proof -
  have old: "list_all (\<lambda>t. t_id t < n) ts" and dis: "distinct (map t_id ts)"
    and pend: "list_all (\<lambda>e. timeoutId (snd e) < n \<and> Some (timeoutId (snd e)) \<noteq> rt) ps"
    and rec: "map t_id (filter (\<lambda>t. t_cb t = ReconnectCb) ts) = (case rt of None \<Rightarrow> [] | Some t \<Rightarrow> [t])"
    using inv by (simp_all add: timers_inv_def)
  have "map t_id (filter (\<lambda>t. t_cb t = ReconnectCb) (filter (\<lambda>x. keep (t_id x)) ts))
      = filter keep (map t_id (filter (\<lambda>t. t_cb t = ReconnectCb) ts))"
    by (induction ts) auto
  also have "\<dots> = (case rt of None \<Rightarrow> [] | Some t \<Rightarrow> [t])"
    using keep by (cases rt) (simp_all add: rec)
  finally have r: "map t_id (filter (\<lambda>t. t_cb t = ReconnectCb) (filter (\<lambda>x. keep (t_id x)) ts))
      = (case rt of None \<Rightarrow> [] | Some t \<Rightarrow> [t])" .
  have "list_all (\<lambda>t. t_id t < n) (filter (\<lambda>x. keep (t_id x)) ts)"
    using old by (auto simp: list_all_iff)
  moreover have "distinct (map t_id (filter (\<lambda>x. keep (t_id x)) ts))"
    using dis by (simp add: distinct_map_filter)
  moreover have "list_all (\<lambda>e. timeoutId (snd e) < n \<and> Some (timeoutId (snd e)) \<noteq> rt) ps'"
    using pend sub by (auto simp: list_all_iff)
  ultimately show ?thesis
    using r by (simp add: timers_inv_def)
qed

lemma timers_inv_pending_subset:
  "timers_inv ts n ps rt \<Longrightarrow> set ps' \<subseteq> set ps \<Longrightarrow> timers_inv ts n ps' rt"
  using timers_inv_filter[of ts n ps rt "\<lambda>t. True" ps'] by simp

lemma timers_inv_clear_reconnect:
  assumes inv: "timers_inv ts n ps (Some t)"
  shows "timers_inv (filter (\<lambda>x. t_id x \<noteq> t) ts) n ps None"
proof -
  have old: "list_all (\<lambda>t. t_id t < n) ts" and dis: "distinct (map t_id ts)"
    and pend: "list_all (\<lambda>e. timeoutId (snd e) < n \<and> Some (timeoutId (snd e)) \<noteq> Some t) ps"
    and rec: "map t_id (filter (\<lambda>t. t_cb t = ReconnectCb) ts) = [t]"
    using inv by (simp_all add: timers_inv_def)
  have "map t_id (filter (\<lambda>t. t_cb t = ReconnectCb) (filter (\<lambda>x. t_id x \<noteq> t) ts))
      = filter (\<lambda>k. k \<noteq> t) (map t_id (filter (\<lambda>t. t_cb t = ReconnectCb) ts))"
    by (induction ts) auto
  then have r: "map t_id (filter (\<lambda>t. t_cb t = ReconnectCb) (filter (\<lambda>x. t_id x \<noteq> t) ts)) = []"
    by (simp add: rec)
  have "list_all (\<lambda>t. t_id t < n) (filter (\<lambda>x. t_id x \<noteq> t) ts)"
    using old by (auto simp: list_all_iff)
  moreover have "distinct (map t_id (filter (\<lambda>x. t_id x \<noteq> t) ts))"
    using dis by (simp add: distinct_map_filter)
  moreover have "list_all (\<lambda>e. timeoutId (snd e) < n \<and> Some (timeoutId (snd e)) \<noteq> None) ps"
    using pend by (auto simp: list_all_iff)
  ultimately show ?thesis
    using r by (simp add: timers_inv_def)
qed

lemma timers_inv_schedule:
  assumes inv: "timers_inv ts n ps None"
  shows "timers_inv (ts @ [\<lparr>t_id = n, t_delay = d, t_due = u, t_cb = ReconnectCb\<rparr>]) (Suc n) ps (Some n)"
proof -
  have old: "list_all (\<lambda>t. t_id t < n) ts" and dis: "distinct (map t_id ts)"
    and pend: "list_all (\<lambda>e. timeoutId (snd e) < n \<and> Some (timeoutId (snd e)) \<noteq> None) ps"
    and rec: "map t_id (filter (\<lambda>t. t_cb t = ReconnectCb) ts) = []"
    using inv by (simp_all add: timers_inv_def)
  have fresh: "n \<notin> t_id ` set ts"
    using old by (auto simp: list_all_iff)
  have "list_all (\<lambda>t. t_id t < Suc n) ts"
    using old by (auto simp: list_all_iff)
  moreover have "list_all (\<lambda>e. timeoutId (snd e) < Suc n \<and> Some (timeoutId (snd e)) \<noteq> Some n) ps"
    using pend by (auto simp: list_all_iff)
  ultimately show ?thesis
    using dis rec fresh by (simp add: timers_inv_def)
qed

text \<open>The timer a handle denotes: the reconnect timer, or a request's.\<close>

lemma find_timer_id: "find (\<lambda>y. t_id y = i) ts = Some x \<Longrightarrow> x \<in> set ts \<and> t_id x = i"
  by (induction ts) (auto split: if_splits)

lemma distinct_ids_same:
  "distinct (map t_id ts) \<Longrightarrow> x \<in> set ts \<Longrightarrow> y \<in> set ts \<Longrightarrow> t_id x = t_id y \<Longrightarrow> x = y"
  by (induction ts) (auto simp: image_iff)

lemma find_reconnect_timer:
  assumes inv: "timers_inv ts n ps rt"
    and f: "find (\<lambda>y. t_id y = i) ts = Some x"
  shows "(t_cb x = ReconnectCb) = (rt = Some i)"
proof -
  have dis: "distinct (map t_id ts)"
    and rec: "map t_id (filter (\<lambda>t. t_cb t = ReconnectCb) ts) = (case rt of None \<Rightarrow> [] | Some t \<Rightarrow> [t])"
    using inv by (simp_all add: timers_inv_def)
  have x: "x \<in> set ts" "t_id x = i"
    using find_timer_id[OF f] by simp_all
  show ?thesis
  proof
    assume "t_cb x = ReconnectCb"
    then have "i \<in> set (map t_id (filter (\<lambda>t. t_cb t = ReconnectCb) ts))"
      using x by force
    then show "rt = Some i"
      by (cases rt) (simp_all add: rec)
  next
    assume "rt = Some i"
    then have "i \<in> set (map t_id (filter (\<lambda>t. t_cb t = ReconnectCb) ts))"
      by (simp add: rec)
    then obtain y where y: "y \<in> set ts" "t_cb y = ReconnectCb" "t_id y = i"
      by auto
    then have "x = y"
      using distinct_ids_same[OF dis x(1) y(1)] x(2) by simp
    then show "t_cb x = ReconnectCb"
      using y by simp
  qed
qed


lemma timers_ok_frame:
  "timers d = timers c \<Longrightarrow> nextTimer d = nextTimer c \<Longrightarrow> pending d = pending c
   \<Longrightarrow> reconnectTimer d = reconnectTimer c \<Longrightarrow> timers_ok d = timers_ok c"
  by (simp add: timers_ok_def)


lemma request_timers_ok: "timers_ok c \<Longrightarrow> timers_ok (request m aw i c)"
  by (cases "ws c")
     (simp_all add: request_def setTimeout_def timers_ok_def timers_inv_request)

lemma pending_settle_timers [simp]:
  "timers (pending_settle p out c) = filter (\<lambda>t. t_id t \<noteq> timeoutId p) (timers c)"
  by (simp add: pending_settle_def clearTimeout_def)

lemma pending_settle_microtasks [simp]:
  "microtasks (pending_settle p out c) = microtasks c @ [ReqSettled (awaiter p) out]"
  by (simp add: pending_settle_def enqueue_def)

lemma fold_pending_settle_timers:
  "timers (fold (\<lambda>(i, p). pending_settle p out) ps c)
     = filter (\<lambda>t. t_id t \<notin> set (map (\<lambda>e. timeoutId (snd e)) ps)) (timers c)"
  by (induction ps arbitrary: c) (auto split: prod.split intro: filter_cong)

lemma fold_pending_settle_microtasks:
  "microtasks (fold (\<lambda>(i, p). pending_settle p out) ps c)
     = microtasks c @ map (\<lambda>e. ReqSettled (awaiter (snd e)) out) ps"
  by (induction ps arbitrary: c) (auto split: prod.split)

lemma flushPending_fields [simp]:
  "pending (flushPending e c) = []"
  "timers (flushPending e c)
     = filter (\<lambda>t. t_id t \<notin> set (map (\<lambda>e. timeoutId (snd e)) (pending c))) (timers c)"
  "microtasks (flushPending e c)
     = microtasks c @ map (\<lambda>p. ReqSettled (awaiter (snd p)) (Rejected e)) (pending c)"
  by (simp_all add: flushPending_def fold_pending_settle_timers fold_pending_settle_microtasks)

lemma pending_not_reconnect:
  assumes "timers_inv ts n ps (Some t)"
  shows "t \<notin> set (map (\<lambda>e. timeoutId (snd e)) ps)"
proof -
  have "list_all (\<lambda>e. timeoutId (snd e) < n \<and> Some (timeoutId (snd e)) \<noteq> Some t) ps"
    using assms by (simp add: timers_inv_def)
  then show ?thesis by (auto simp: list_all_iff)
qed

lemma flushPending_timers_ok:
  assumes "timers_ok c"
  shows "timers_ok (flushPending e c)"
proof -
  have "timers_inv (filter (\<lambda>x. t_id x \<notin> set (map (\<lambda>e. timeoutId (snd e)) (pending c))) (timers c))
          (nextTimer c) [] (reconnectTimer c)"
    using assms pending_not_reconnect[of "timers c" "nextTimer c" "pending c"]
    by (intro timers_inv_filter[where ps="pending c"]) (auto simp: timers_ok_def)
  then show ?thesis by (simp add: timers_ok_def)
qed

lemma pending_settle_timers_ok:
  assumes ok: "timers_ok c" and p: "map_of (pending c) i = Some p"
  shows "timers_ok (pending_settle p out (c\<lparr>pending := AList.delete i (pending c)\<rparr>))"
proof -
  have mem: "(i, p) \<in> set (pending c)"
    using p by (rule map_of_SomeD)
  have "list_all (\<lambda>e. timeoutId (snd e) < nextTimer c
          \<and> Some (timeoutId (snd e)) \<noteq> reconnectTimer c) (pending c)"
    using ok by (simp add: timers_ok_def timers_inv_def)
  then have ne: "Some (timeoutId p) \<noteq> reconnectTimer c"
    using mem by (auto simp: list_all_iff)
  have "timers_inv (filter (\<lambda>x. t_id x \<noteq> timeoutId p) (timers c)) (nextTimer c)
          (AList.delete i (pending c)) (reconnectTimer c)"
    using ok ne
    by (intro timers_inv_filter[where ps="pending c"]) (auto simp: timers_ok_def AList.delete_eq)
  then show ?thesis by (simp add: timers_ok_def)
qed

lemma scheduleReconnect_fields:
  "reconnectTimer c = None \<Longrightarrow>
     reconnectTimer (scheduleReconnect c) = Some (nextTimer c)
     \<and> timers (scheduleReconnect c)
         = timers c @ [\<lparr>t_id = nextTimer c, t_delay = backoffMs c, t_due = now c + backoffMs c,
                         t_cb = ReconnectCb\<rparr>]
     \<and> nextTimer (scheduleReconnect c) = Suc (nextTimer c)
     \<and> backoffMs (scheduleReconnect c) = min (backoffMs c * 2) 30000"
  "reconnectTimer c = Some t \<Longrightarrow> scheduleReconnect c = c"
  by (simp_all add: scheduleReconnect_def setTimeout_def)

lemma scheduleReconnect_timers_ok: "timers_ok c \<Longrightarrow> timers_ok (scheduleReconnect c)"
  by (cases "reconnectTimer c")
     (simp_all add: scheduleReconnect_fields timers_ok_def timers_inv_schedule)

lemma handleClose_timers_ok:
  assumes "timers_ok c"
  shows "timers_ok (handleClose c)"
proof -
  define c1 where "c1 = flushPending ''connection closed''
                          (c\<lparr>connected := False, disconnected := True, ws := None\<rparr>)"
  define c2 where "c2 = fold (\<lambda>r c'. listener r (close_event r) (logger (LogNotifyClose r) c'))
                          (chatListeners c1) c1"
  have "timers_ok (c\<lparr>connected := False, disconnected := True, ws := None\<rparr>)"
    using assms by (simp add: timers_ok_def)
  then have "timers_ok c1"
    unfolding c1_def by (rule flushPending_timers_ok)
  then have ok2: "timers_ok c2"
    by (simp add: c2_def timers_ok_def)
  then have "timers_ok (scheduleReconnect (logger LogClosedReconnect c2))"
    by (intro scheduleReconnect_timers_ok) (simp add: timers_ok_def)
  then show ?thesis
    using ok2 by (simp add: handleClose_def Let_def c1_def c2_def)
qed

lemma clear_reconnect_timers_ok:
  assumes "timers_ok c" and "reconnectTimer c = Some t"
  shows "timers_ok ((clearTimeout t c)\<lparr>reconnectTimer := None\<rparr>)"
  using assms timers_inv_clear_reconnect[of "timers c" "nextTimer c" "pending c" t]
  by (simp add: timers_ok_def clearTimeout_def)

lemma close_timers_ok:
  assumes "timers_ok c"
  shows "timers_ok (close c)"
  unfolding close_def Let_def
proof (rule flushPending_timers_ok)
  show "timers_ok
     ((case ws (case reconnectTimer (c\<lparr>closed := True\<rparr>) of
                  None \<Rightarrow> c\<lparr>closed := True\<rparr>
                | Some t \<Rightarrow> (clearTimeout t (c\<lparr>closed := True\<rparr>))\<lparr>reconnectTimer := None\<rparr>) of
         None \<Rightarrow> case reconnectTimer (c\<lparr>closed := True\<rparr>) of
                  None \<Rightarrow> c\<lparr>closed := True\<rparr>
                | Some t \<Rightarrow> (clearTimeout t (c\<lparr>closed := True\<rparr>))\<lparr>reconnectTimer := None\<rparr>
       | Some s \<Rightarrow>
           if socket_state
                (case reconnectTimer (c\<lparr>closed := True\<rparr>) of
                   None \<Rightarrow> c\<lparr>closed := True\<rparr>
                 | Some t \<Rightarrow> (clearTimeout t (c\<lparr>closed := True\<rparr>))\<lparr>reconnectTimer := None\<rparr>) s
              = Some CLOSED
           then case reconnectTimer (c\<lparr>closed := True\<rparr>) of
                  None \<Rightarrow> c\<lparr>closed := True\<rparr>
                | Some t \<Rightarrow> (clearTimeout t (c\<lparr>closed := True\<rparr>))\<lparr>reconnectTimer := None\<rparr>
           else set_ready s CLOSING
                  (case reconnectTimer (c\<lparr>closed := True\<rparr>) of
                     None \<Rightarrow> c\<lparr>closed := True\<rparr>
                   | Some t \<Rightarrow> (clearTimeout t (c\<lparr>closed := True\<rparr>))\<lparr>reconnectTimer := None\<rparr>))
      \<lparr>ws := None\<rparr>)"
    using assms
    by (cases "reconnectTimer c"; cases "ws c")
       (simp_all add: timers_ok_def clearTimeout_def timers_inv_clear_reconnect)
qed

lemma fire_timers_ok:
  assumes ok: "timers_ok c"
  shows "timers_ok (fire i c)"
proof (cases "find (\<lambda>t. t_id t = i) (timers c)")
  case None
  then show ?thesis using ok by (simp add: fire_def)
next
  case (Some x)
  show ?thesis
  proof (cases "now c < t_due x")
    case True
    then show ?thesis using ok Some by (simp add: fire_def)
  next
    case False
    have inv: "timers_inv (timers c) (nextTimer c) (pending c) (reconnectTimer c)"
      using ok by (simp add: timers_ok_def)
    show ?thesis
    proof (cases "t_cb x")
      case ReconnectCb
      then have rt: "reconnectTimer c = Some i"
        using find_reconnect_timer[OF inv Some] by simp
      have "timers_ok ((clearTimeout i c)\<lparr>reconnectTimer := None\<rparr>)"
        using ok rt by (rule clear_reconnect_timers_ok)
      then have "timers_ok (reconnect_fired (clearTimeout i c))"
        by (simp add: timers_ok_def reconnect_fired_def)
      then show ?thesis
        using Some False ReconnectCb by (simp add: fire_def)
    next
      case (RequestTimeoutCb j m aw)
      then have rt: "reconnectTimer c \<noteq> Some i"
        using find_reconnect_timer[OF inv Some] by simp
      have "timers_inv (filter (\<lambda>x. t_id x \<noteq> i) (timers c)) (nextTimer c)
              (AList.delete j (pending c)) (reconnectTimer c)"
        using inv rt
        by (intro timers_inv_filter[where ps="pending c"]) (auto simp: AList.delete_eq)
      then have "timers_ok (request_timeout j m aw (clearTimeout i c))"
        by (simp add: timers_ok_def request_timeout_def clearTimeout_def enqueue_def)
      then show ?thesis
        using Some False RequestTimeoutCb by (simp add: fire_def)
    qed
  qed
qed

lemma handleMessage_timers_ok:
  assumes ok: "timers_ok c"
  shows "timers_ok (handleMessage raw c)"
proof (cases raw)
  case None
  then show ?thesis using ok by (simp add: handleMessage_def timers_ok_def)
next
  case (Some f)
  show ?thesis
  proof (cases f)
    case (ResFrame i good e)
    show ?thesis
    proof (cases "map_of (pending c) i")
      case None
      then show ?thesis using ok Some ResFrame by (simp add: handleMessage_def)
    next
      case (Some p)
      then show ?thesis
        using pending_settle_timers_ok[OF ok Some] \<open>raw = Some f\<close> ResFrame
        by (simp add: handleMessage_def)
    qed
  next
    case (EventFrame ev sq payload)
    have "timers_ok (route_event ev payload (case sq of None \<Rightarrow> c | Some n \<Rightarrow> track_seq n c))"
      using ok by (cases sq) (simp_all add: timers_ok_def)
    then show ?thesis using Some EventFrame by (simp add: handleMessage_def)
  next
    case OtherFrame
    then show ?thesis using ok Some by (simp add: handleMessage_def)
  qed
qed

lemma timers_ok_simps [simp]:
  "timers_ok (put_run r v c) = timers_ok c"
  "timers_ok (logger l c) = timers_ok c"
  "timers_ok (cleanupExpiredProgress c) = timers_ok c"
  "timers_ok (set_ready s st c) = timers_ok c"
  "timers_ok (c\<lparr>chatListeners := x\<rparr>) = timers_ok c"
  by (simp_all add: timers_ok_def)

lemma chatStream_timers_ok: "timers_ok c \<Longrightarrow> timers_ok (chatStream r i k c)"
  by (auto simp: chatStream_def getProgress_def Let_def split: option.split
      intro!: request_timers_ok)

lemma handle_timers_ok:
  assumes ok: "timers_ok c"
  shows "timers_ok (handle a c)"
proof (cases a)
  case (CallConnect k)
  then show ?thesis using ok by (simp add: handle_def timers_ok_def)
next
  case CallClose
  then show ?thesis using ok by (simp add: handle_def close_timers_ok)
next
  case (CallChatStream r i k)
  then show ?thesis using ok by (simp add: handle_def chatStream_timers_ok)
next
  case (CallNext r)
  then show ?thesis using ok by (simp add: handle_def timers_ok_def)
next
  case (CallAbortChat k i)
  then show ?thesis using ok by (simp add: handle_def abortChat_def request_timers_ok)
next
  case (SockOpen s i)
  have "timers_ok (set_ready s OPEN c)"
    using ok by (simp add: timers_ok_def)
  then show ?thesis
    using ok SockOpen by (simp add: handle_def onOpen_def sendConnect_def request_timers_ok)
next
  case (SockError s e)
  then show ?thesis using ok by (simp add: handle_def timers_ok_def)
next
  case (SockMessage s raw)
  then show ?thesis using ok by (simp add: handle_def handleMessage_timers_ok)
next
  case (SockClose s)
  have "timers_ok (set_ready s CLOSED c)"
    using ok by (simp add: timers_ok_def)
  then show ?thesis
    using ok SockClose by (simp add: handle_def handleClose_timers_ok)
next
  case (TimerFire i)
  then show ?thesis using ok by (simp add: handle_def fire_timers_ok)
next
  case (Advance d)
  then show ?thesis using ok by (simp add: handle_def timers_ok_def)
qed

lemma step_timers_ok: "timers_ok c \<Longrightarrow> timers_ok (step a c)"
  using handle_timers_ok[of c a] by (simp add: timers_ok_def)

lemma exec_timers_ok: "timers_ok c \<Longrightarrow> timers_ok (exec as c)"
  by (induction as arbitrary: c) (simp_all add: exec_def step_timers_ok)


subsection \<open>After \<open>close\<close>\<close>

lemma close_fields:
  "closed (close c)"
  "reconnectTimer (close c) = None"
  "ws (close c) = None"
  "pending (close c) = []"
  by (cases "reconnectTimer c"; cases "ws c"; simp add: close_def Let_def)+

lemma close_microtasks:
  "microtasks (close c)
     = microtasks c @ map (\<lambda>p. ReqSettled (awaiter (snd p)) (Rejected ''client closed'')) (pending c)"
  by (cases "reconnectTimer c"; cases "ws c"; simp add: close_def Let_def)

lemma socket_state_set_ready:
  "socket_state (set_ready s r c) s' =
     (if s' = s \<and> s < length (sockets c) then Some r else socket_state c s')"
  by (simp add: socket_state_def set_ready_def)

lemma socket_state_frame:
  "sockets d = sockets c \<Longrightarrow> socket_state d s = socket_state c s"
  by (simp add: socket_state_def)

lemma close_socket:
  assumes "ws c = Some s" and "socket_state c s \<noteq> None"
  shows "socket_state (close c) s = Some CLOSING \<or> socket_state (close c) s = Some CLOSED"
proof -
  have s: "s < length (sockets c)"
    using assms(2) by (simp add: socket_state_def split: if_splits)
  show ?thesis
    using assms(1) s
    by (cases "reconnectTimer c")
       (simp_all add: close_def Let_def socket_state_def set_ready_def)
qed

lemma reconnect_timers_none:
  "timers_ok c \<Longrightarrow> reconnectTimer c = None \<Longrightarrow> reconnect_timers c = []"
  by (simp add: timers_ok_def timers_inv_def reconnect_timers_def)

lemma handleClose_closed:
  "closed c \<Longrightarrow> reconnectTimer (handleClose c) = reconnectTimer c"
  by (simp add: handleClose_def Let_def)

lemma fire_reconnectTimer:
  "reconnectTimer (fire i c) = None \<or> reconnectTimer (fire i c) = reconnectTimer c"
  by (simp add: fire_def Let_def reconnect_fired_def split: option.split timer_cb.split)

lemma handle_closed: "closed c \<Longrightarrow> closed (handle a c)"
  by (cases a) (simp_all add: handle_def close_fields)

lemma handle_after_close:
  assumes "closed c" and "reconnectTimer c = None"
  shows "reconnectTimer (handle a c) = None"
proof (cases a)
  case (SockClose s)
  then show ?thesis using assms by (simp add: handle_def handleClose_closed)
next
  case (TimerFire i)
  then show ?thesis using assms fire_reconnectTimer[of i c] by (auto simp: handle_def)
qed (use assms in \<open>simp_all add: handle_def close_fields\<close>)

lemma exec_after_close:
  assumes "closed c" and "reconnectTimer c = None"
  shows "closed (exec bs c) \<and> reconnectTimer (exec bs c) = None"
  using assms
proof (induction bs arbitrary: c)
  case Nil
  then show ?case by (simp add: exec_def)
next
  case (Cons b bs)
  have "closed (step b c)" "reconnectTimer (step b c) = None"
    using Cons.prems by (simp_all add: handle_closed handle_after_close)
  then have "closed (exec bs (step b c)) \<and> reconnectTimer (exec bs (step b c)) = None"
    by (rule Cons.IH)
  then show ?case by (simp add: exec_def)
qed

subsection \<open>Continuations and the connected flag\<close>

lemma no_handshake_simps [simp]:
  "no_handshake_done (GenResume r)"
  "no_handshake_done (ConnSettled s out)"
  "no_handshake_done (ReqSettled aw (Rejected e))"
  by (simp_all add: no_handshake_done_def split: awaiter.split)














subsection \<open>A failed reconnect attempt\<close>




lemma connect_settled_connectPromise [simp]: "connectPromise (connect_settled s out c) = None"
  by (simp add: connect_settled_def Let_def)





subsection \<open>The connected flag, \<open>connect\<close>, requests, events, the progress cache\<close>

lemma handleClose_connected [simp]: "connected (handleClose c) = False"
  by (simp add: handleClose_def Let_def)


lemma fold_deliver_results:
  "connectResults (fold (\<lambda>w. deliver (fst w) out) wl c)
     = connectResults c @ map (\<lambda>w. (fst w, out)) wl"
proof (induction wl arbitrary: c)
  case Nil
  then show ?case by simp
next
  case (Cons w wl)
  have "connectResults (deliver (fst w) out c) = connectResults c @ [(fst w, out)]"
    by (cases "fst w"; cases out) (simp_all add: deliver_def)
  with Cons show ?case by simp
qed





lemma delete_update_same: "AList.delete i (AList.update i v ps) = AList.delete i ps"
  by (induction ps) (auto simp: AList.delete_eq)



lemma dbl_exact: "\<bar>n\<bar> \<le> 9007199254740992 \<Longrightarrow> dbl n = n"
  by (simp add: dbl_def)

lemma track_seq_fields:
  "lastSeq (track_seq n c) = Some n"
  "logs (track_seq n c)
     = logs c @ (case lastSeq c of
                   None \<Rightarrow> []
                 | Some l \<Rightarrow> if n > dbl (l + 1)
                             then [LogGap (dbl (l + 1)) n (dbl (dbl (n - l) - 1))] else [])"
  by (simp_all add: track_seq_def logger_def split: option.split)

text \<open>Below \<open>2 ^ 53\<close> the arithmetic of the gap check is exact.\<close>

lemma track_seq_in_range:
  assumes "seq_in_range n" and "case lastSeq c of None \<Rightarrow> True | Some l \<Rightarrow> seq_in_range l"
  shows "logs (track_seq n c)
     = logs c @ (case lastSeq c of
                   None \<Rightarrow> []
                 | Some l \<Rightarrow> if n > l + 1 then [LogGap (l + 1) n (n - l - 1)] else [])"
proof (cases "lastSeq c")
  case None
  then show ?thesis by (simp add: track_seq_fields)
next
  case (Some l)
  then have l: "0 \<le> l" "l \<le> 9007199254740991" and n: "0 \<le> n" "n \<le> 9007199254740991"
    using assms by (simp_all add: seq_in_range_def)
  have 1: "dbl (l + 1) = l + 1"
    using l by (intro dbl_exact) simp
  have 2: "dbl (n - l) = n - l"
    using l n by (intro dbl_exact) simp
  have 3: "dbl (n - l - 1) = n - l - 1"
    using l n by (intro dbl_exact) simp
  show ?thesis
    using Some by (simp add: track_seq_fields 1 2 3)
qed

lemma listener_no_gap: "filter is_gap (logs (listener r evt c)) = filter is_gap (logs c)"
  by (cases "map_of (runs c) r")
     (simp_all add: listener_def Let_def saveProgress_def logger_def enqueue_def put_run_def
        clearProgress_def is_gap_def)

lemma route_event_no_gap: "filter is_gap (logs (route_event ev payload c)) = filter is_gap (logs c)"
  by (simp add: route_event_def listener_no_gap logger_def is_gap_def split: option.split)

lemma handleMessage_event:
  "handleMessage (Some (EventFrame ev (Some n) payload)) c = route_event ev payload (track_seq n c)"
  by (simp add: handleMessage_def)

lemma gaps_one_two_five:
  assumes "case lastSeq c of None \<Rightarrow> True | Some l \<Rightarrow> seq_in_range l"
  shows "filter is_gap
           (logs (handleMessage (Some (EventFrame ec (Some 5) pc))
                   (handleMessage (Some (EventFrame eb (Some 2) pb))
                     (handleMessage (Some (EventFrame ea (Some 1) pa)) c))))
         = filter is_gap (logs c) @ [LogGap 3 5 2]"
proof -
  define c1 where "c1 = handleMessage (Some (EventFrame ea (Some 1) pa)) c"
  define c2 where "c2 = handleMessage (Some (EventFrame eb (Some 2) pb)) c1"
  have r: "seq_in_range 1" "seq_in_range 2" "seq_in_range 5"
    by (simp_all add: seq_in_range_def)
  have l1: "lastSeq c1 = Some 1" and l2: "lastSeq c2 = Some 2"
    by (simp_all add: c1_def c2_def handleMessage_event track_seq_fields)
  have g1: "filter is_gap (logs c1) = filter is_gap (logs c)"
    using assms track_seq_in_range[OF r(1) assms]
    by (cases "lastSeq c")
       (simp_all add: c1_def handleMessage_event route_event_no_gap is_gap_def seq_in_range_def)
  have g2: "filter is_gap (logs c2) = filter is_gap (logs c1)"
    using track_seq_in_range[OF r(2), of c1]
    by (simp add: c2_def handleMessage_event route_event_no_gap l1 r is_gap_def)
  have g3: "filter is_gap (logs (handleMessage (Some (EventFrame ec (Some 5) pc)) c2))
              = filter is_gap (logs c2) @ [LogGap 3 5 2]"
    using track_seq_in_range[OF r(3), of c2]
    by (simp add: handleMessage_event route_event_no_gap l2 r is_gap_def)
  show ?thesis
    using g1 g2 g3 by (simp add: c1_def c2_def)
qed

lemma getProgress_eq:
  "getProgress k c
     = (map_of (filter (\<lambda>e. \<not> now c - updatedAt (snd e) > 300000) (sessionProgress c)) k,
        c\<lparr>sessionProgress := filter (\<lambda>e. \<not> now c - updatedAt (snd e) > 300000) (sessionProgress c),
          logs := logs c @ map (\<lambda>e. LogCleanup (fst e))
                    (filter (\<lambda>e. now c - updatedAt (snd e) > 300000) (sessionProgress c))\<rparr>)"
  by (simp add: getProgress_def Let_def cleanupExpiredProgress_def expired_def PROGRESS_TTL_MS_def
      case_prod_unfold)

lemma chatStream_sessionProgress:
  "sessionProgress (chatStream r i k c)
     = filter (\<lambda>e. \<not> now c - updatedAt (snd e) > 300000) (sessionProgress c)"
  by (simp add: chatStream_def getProgress_eq Let_def split: option.split)

subsection \<open>The example clients, evaluated\<close>

lemma handshaking_client_state [code]:
  "handshaking_client =
     \<lparr>ws = Some 0, pending = [(''h1'', \<lparr>timeoutId = 0, awaiter = Handshake 0\<rparr>)],
      chatListeners = [], connected = False, closed = False, disconnected = False,
      reconnectTimer = None, backoffMs = 1000, connectPromise = Some 0, lastSeq = None,
      sessionProgress = [], now = 0,
      timers = [\<lparr>t_id = 0, t_delay = 30000, t_due = 30000,
                 t_cb = RequestTimeoutCb ''h1'' ''connect'' (Handshake 0)\<rparr>],
      nextTimer = 1, sockets = [\<lparr>readyState = OPEN, attemptSettled = False\<rparr>],
      sent = [(0, ''h1'', ''connect'')], logs = [LogConnecting], runs = [],
      connectWaiters = [(Caller 0, 0)], connectResults = [], requestResults = [],
      microtasks = []\<rparr>"
  by code_simp

lemma connected_client_state [code]:
  "connected_client =
     \<lparr>ws = Some 0, pending = [], chatListeners = [], connected = True, closed = False,
      disconnected = False, reconnectTimer = None, backoffMs = 1000, connectPromise = None,
      lastSeq = None, sessionProgress = [], now = 0, timers = [], nextTimer = 1,
      sockets = [\<lparr>readyState = OPEN, attemptSettled = True\<rparr>],
      sent = [(0, ''h1'', ''connect'')], logs = [LogConnecting, LogConnected], runs = [],
      connectWaiters = [], connectResults = [(Caller 0, Resolved)], requestResults = [],
      microtasks = []\<rparr>"
  by code_simp

lemma busy_client_state [code]:
  "busy_client =
     \<lparr>ws = Some 0,
      pending = [(''a1'', \<lparr>timeoutId = 1, awaiter = Outside 1\<rparr>),
                 (''a2'', \<lparr>timeoutId = 2, awaiter = Outside 2\<rparr>)],
      chatListeners = [], connected = True, closed = False, disconnected = False,
      reconnectTimer = None, backoffMs = 1000, connectPromise = None, lastSeq = None,
      sessionProgress = [], now = 0,
      timers = [\<lparr>t_id = 1, t_delay = 30000, t_due = 30000,
                 t_cb = RequestTimeoutCb ''a1'' ''chat.abort'' (Outside 1)\<rparr>,
                \<lparr>t_id = 2, t_delay = 30000, t_due = 30000,
                 t_cb = RequestTimeoutCb ''a2'' ''chat.abort'' (Outside 2)\<rparr>],
      nextTimer = 3, sockets = [\<lparr>readyState = OPEN, attemptSettled = True\<rparr>],
      sent = [(0, ''h1'', ''connect''), (0, ''a1'', ''chat.abort''), (0, ''a2'', ''chat.abort'')],
      logs = [LogConnecting, LogConnected], runs = [], connectWaiters = [],
      connectResults = [(Caller 0, Resolved)], requestResults = [], microtasks = []\<rparr>"
  by code_simp

lemma streaming_client_state [code]:
  "streaming_client =
     \<lparr>ws = Some 0, pending = [], chatListeners = [''r1''], connected = True, closed = False,
      disconnected = False, reconnectTimer = None, backoffMs = 1000, connectPromise = None,
      lastSeq = None, sessionProgress = [], now = 0, timers = [], nextTimer = 2,
      sockets = [\<lparr>readyState = OPEN, attemptSettled = True\<rparr>],
      sent = [(0, ''h1'', ''connect''), (0, ''q1'', ''chat.send'')],
      logs = [LogConnecting, LogConnected],
      runs = [(''r1'',
               \<lparr>params_sessionKey = ''s1'', accumulated = [], lastYieldedLength = 0,
                isDone = False, error = None, disconnectedWithData = False, lastEventSeq = 0,
                hasNewData = False, phase = Waiting, yielded = []\<rparr>)],
      connectWaiters = [], connectResults = [(Caller 0, Resolved)], requestResults = [],
      microtasks = []\<rparr>"
  by code_simp

subsection \<open>Runs of tasks in which no handshake is accepted\<close>


















subsection \<open>The correlation ids in the pending table\<close>





lemma handleClose_pending [simp]: "pending (handleClose c) = []"
  by (cases "reconnectTimer c")
     (simp_all add: handleClose_def Let_def scheduleReconnect_def setTimeout_def)











subsection \<open>The timeout of a request, and a response that nobody awaits\<close>



subsection \<open>What adds an entry to the progress cache, and what removes one\<close>

lemma listener_sessionProgress:
  assumes "map_of (runs c) r = Some v"
  shows "sessionProgress (listener r evt c)
     = (if state evt = Final \<or> state evt = Aborted
        then AList.delete (params_sessionKey v) (sessionProgress c)
        else if state evt = Delta \<and> length (event_text evt) > length (accumulated v)
        then AList.update (params_sessionKey v)
               \<lparr>p_runId = r, p_sessionKey = params_sessionKey v,
                p_accumulated = event_text evt,
                p_lastSeq = (case seq evt of Some n \<Rightarrow> n | None \<Rightarrow> lastEventSeq v),
                updatedAt = now c\<rparr> (sessionProgress c)
        else sessionProgress c)"
proof (cases "seq evt")
  case None
  then show ?thesis
    using assms
    by (cases "state evt")
       (simp_all add: listener_def Let_def saveProgress_def clearProgress_def logger_def
          delete_update_same)
next
  case (Some n)
  then show ?thesis
    using assms
    by (cases "state evt")
       (simp_all add: listener_def Let_def saveProgress_def clearProgress_def logger_def
          delete_update_same)
qed

lemma listener_unregistered:
  "map_of (runs c) r = None \<Longrightarrow> sessionProgress (listener r evt c) = sessionProgress c"
  by (simp add: listener_def)

lemma listener_end_removes:
  assumes "map_of (runs c) r = Some v" and "state evt = Final \<or> state evt = Aborted"
  shows "sessionProgress (listener r evt c) = AList.delete (params_sessionKey v) (sessionProgress c)"
  using assms by (simp add: listener_sessionProgress)

lemma chat_message_handled:
  assumes sock: "socket_state c s = Some OPEN \<or> socket_state c s = Some CLOSING"
    and reg: "runId evt \<in> set (chatListeners c)"
  shows "\<exists>c'. handle (SockMessage s (Some (EventFrame ''chat'' sq (Some evt)))) c
                 = listener (runId evt) evt c'
              \<and> runs c' = runs c \<and> sessionProgress c' = sessionProgress c \<and> now c' = now c"
proof -
  define c' where "c' = (case sq of None \<Rightarrow> c | Some n \<Rightarrow> track_seq n c)"
  have c': "chatListeners c' = chatListeners c" "runs c' = runs c"
      "sessionProgress c' = sessionProgress c" "now c' = now c"
    by (simp_all add: c'_def split: option.split)
  have "handle (SockMessage s (Some (EventFrame ''chat'' sq (Some evt)))) c
      = listener (runId evt) evt c'"
    using sock reg
    by (auto simp: handle_def handleMessage_def route_event_def c' c'_def[symmetric])
  then show ?thesis using c' by blast
qed

lemma end_event_removes:
  assumes sock: "socket_state c s = Some OPEN \<or> socket_state c s = Some CLOSING"
    and reg: "runId evt \<in> set (chatListeners c)"
    and v: "map_of (runs c) (runId evt) = Some v"
    and st: "state evt = Final \<or> state evt = Aborted"
  shows "sessionProgress (step (SockMessage s (Some (EventFrame ''chat'' sq (Some evt)))) c)
           = AList.delete (params_sessionKey v) (sessionProgress c)"
proof -
  obtain c' where h: "handle (SockMessage s (Some (EventFrame ''chat'' sq (Some evt)))) c
                 = listener (runId evt) evt c'"
    and c': "runs c' = runs c" "sessionProgress c' = sessionProgress c"
    using chat_message_handled[OF sock reg] by blast
  have "sessionProgress (listener (runId evt) evt c')
          = AList.delete (params_sessionKey v) (sessionProgress c')"
    using v st by (intro listener_end_removes) (simp_all add: c')
  then show ?thesis by (simp add: h c')
qed

lemma filter_keeps_absent: "map_of ps k = None \<Longrightarrow> map_of (filter P ps) k = None"
  by (auto simp: map_of_eq_None_iff)

lemma listener_close_event [simp]:
  "sessionProgress (listener r (close_event r) c) = sessionProgress c"
  by (cases "map_of (runs c) r")
     (simp_all add: listener_unregistered listener_sessionProgress close_event_def)

lemma fold_close_event_sessionProgress:
  "sessionProgress (fold (\<lambda>r c'. listener r (close_event r) (logger (g r) c')) rs c)
     = sessionProgress c"
  by (induction rs arbitrary: c) simp_all

lemma handleClose_sessionProgress [simp]: "sessionProgress (handleClose c) = sessionProgress c"
  by (simp add: handleClose_def Let_def fold_close_event_sessionProgress)

lemma fire_sessionProgress [simp]: "sessionProgress (fire n c) = sessionProgress c"
proof (cases "find (\<lambda>t. t_id t = n) (timers c)")
  case None
  then show ?thesis by (simp add: fire_def)
next
  case (Some x)
  then show ?thesis by (cases "t_cb x") (simp_all add: fire_def)
qed

text \<open>
  An absent entry stays absent through every handler but that of a delta event with a
  longer text for a registered run of the session, which adds it.
\<close>

lemma handleMessage_absent:
  assumes sock: "socket_state c s = Some OPEN \<or> socket_state c s = Some CLOSING"
    and ab: "map_of (sessionProgress c) k = None"
  shows "(map_of (sessionProgress (handleMessage raw c)) k \<noteq> None)
           = saves_progress k (SockMessage s raw) c"
proof (cases raw)
  case None
  then show ?thesis using ab by (simp add: handleMessage_def saves_progress_def)
next
  case (Some f)
  show ?thesis
  proof (cases f)
    case (ResFrame i good e)
    then show ?thesis
      using ab Some
      by (cases "map_of (pending c) i") (simp_all add: handleMessage_def saves_progress_def)
  next
    case OtherFrame
    then show ?thesis using ab Some by (simp add: handleMessage_def saves_progress_def)
  next
    case (EventFrame ev sq payload)
    define c' where "c' = (case sq of None \<Rightarrow> c | Some n \<Rightarrow> track_seq n c)"
    have c': "chatListeners c' = chatListeners c" "runs c' = runs c"
        "sessionProgress c' = sessionProgress c"
      by (simp_all add: c'_def split: option.split)
    have rw: "raw = Some (EventFrame ev sq payload)"
      using Some EventFrame by simp
    have hm: "handleMessage raw c = route_event ev payload c'"
      unfolding rw by (simp add: handleMessage_def c'_def)
    show ?thesis
    proof (cases "ev = ''chat''")
      case False
      have "\<not> saves_progress k (SockMessage s raw) c"
        unfolding rw using False by (cases payload) (simp_all add: saves_progress_def)
      moreover have "sessionProgress (handleMessage raw c) = sessionProgress c"
        unfolding hm using False by (simp add: route_event_def c')
      ultimately show ?thesis using ab by simp
    next
      case chat: True
      show ?thesis
      proof (cases payload)
        case None
        have "\<not> saves_progress k (SockMessage s raw) c"
          unfolding rw using None by (simp add: saves_progress_def)
        moreover have "sessionProgress (handleMessage raw c) = sessionProgress c"
          unfolding hm using None chat by (simp add: route_event_def c')
        ultimately show ?thesis using ab by simp
      next
        case p: (Some p)
        show ?thesis
        proof (cases "runId p \<in> set (chatListeners c)")
          case False
          have "\<not> saves_progress k (SockMessage s raw) c"
            unfolding rw using p False by (simp add: saves_progress_def)
          moreover have "sessionProgress (handleMessage raw c) = sessionProgress c"
            unfolding hm using p chat False by (simp add: route_event_def c')
          ultimately show ?thesis using ab by simp
        next
          case reg: True
          have r: "handleMessage raw c = listener (runId p) p c'"
            unfolding hm using chat p reg by (simp add: route_event_def c')
          have sp: "saves_progress k (SockMessage s raw) c
                = (state p = Delta
                   \<and> (case map_of (runs c) (runId p) of
                         None \<Rightarrow> False
                       | Some v \<Rightarrow> params_sessionKey v = k
                                   \<and> length (event_text p) > length (accumulated v)))"
            unfolding rw using sock chat p reg by (auto simp: saves_progress_def)
          show ?thesis
          proof (cases "map_of (runs c) (runId p)")
            case None
            then show ?thesis
              using ab by (simp add: r sp listener_unregistered c')
          next
            case v: (Some v)
            have "map_of (runs c') (runId p) = Some v"
              using v by (simp add: c')
            then have "sessionProgress (listener (runId p) p c')
              = (if state p = Final \<or> state p = Aborted
                 then AList.delete (params_sessionKey v) (sessionProgress c)
                 else if state p = Delta \<and> length (event_text p) > length (accumulated v)
                 then AList.update (params_sessionKey v)
                        \<lparr>p_runId = runId p, p_sessionKey = params_sessionKey v,
                         p_accumulated = event_text p,
                         p_lastSeq = (case seq p of Some n \<Rightarrow> n | None \<Rightarrow> lastEventSeq v),
                         updatedAt = now c'\<rparr> (sessionProgress c)
                 else sessionProgress c)"
              by (simp add: listener_sessionProgress c')
            then show ?thesis
              using ab v
              by (cases "state p")
                 (auto simp: r sp AList.update_conv' AList.delete_conv')
          qed
        qed
      qed
    qed
  qed
qed

lemma handle_absent:
  assumes ab: "map_of (sessionProgress c) k = None"
  shows "(map_of (sessionProgress (handle a c)) k \<noteq> None) = saves_progress k a c"
proof (cases a)
  case (CallChatStream r i k')
  then show ?thesis
    using ab by (simp add: handle_def chatStream_sessionProgress filter_keeps_absent
        saves_progress_def)
next
  case (SockMessage s raw)
  show ?thesis
  proof (cases "socket_state c s = Some OPEN \<or> socket_state c s = Some CLOSING")
    case True
    then have "handle a c = handleMessage raw c"
      using SockMessage by (auto simp: handle_def)
    then show ?thesis
      using handleMessage_absent[OF True ab, of raw] SockMessage by simp
  next
    case False
    then have "handle a c = c"
      using SockMessage by (simp add: handle_def)
    moreover have "\<not> saves_progress k a c"
      using False SockMessage
      by (auto simp: saves_progress_def split: option.split frame.split)
    ultimately show ?thesis using ab by simp
  qed
qed (use ab in \<open>simp_all add: handle_def saves_progress_def abortChat_def\<close>)

lemma step_absent:
  assumes "map_of (sessionProgress c) k = None"
  shows "(map_of (sessionProgress (step a c)) k \<noteq> None) = saves_progress k a c"
  using handle_absent[OF assms, of a] by simp

lemma exec_absent:
  assumes "map_of (sessionProgress c) k = None" and "never_saves k bs c"
  shows "map_of (sessionProgress (exec bs c)) k = None"
  using assms
proof (induction bs arbitrary: c)
  case Nil
  then show ?case by (simp add: exec_def)
next
  case (Cons a bs)
  have "map_of (sessionProgress (step a c)) k = None"
    using step_absent[OF Cons.prems(1), of a] Cons.prems(2) by simp
  then have "map_of (sessionProgress (exec bs (step a c))) k = None"
    using Cons.prems(2) by (intro Cons.IH) simp_all
  then show ?case by (simp add: exec_def)
qed

subsection \<open>The cases of \<open>connect\<close>\<close>

lemma connect_cases:
  "(connected c \<longrightarrow> connect c = (ReturnsVoid, c))
   \<and> (\<not> connected c \<and> closed c \<longrightarrow> connect c = (Throws ''client is closed'', c))
   \<and> (\<not> connected c \<and> \<not> closed c \<and> connectPromise c = Some s \<longrightarrow> connect c = (Awaits s, c))
   \<and> (\<not> connected c \<and> \<not> closed c \<and> connectPromise c = None \<longrightarrow>
         fst (connect c) = Awaits (length (sockets c))
         \<and> connectPromise (snd (connect c)) = Some (length (sockets c))
         \<and> sockets (snd (connect c))
              = sockets c @ [\<lparr>readyState = CONNECTING, attemptSettled = False\<rparr>])
   \<and> connectResults (connect_settled s out d)
        = connectResults d @ map (\<lambda>w. (fst w, out)) (filter (\<lambda>w. snd w = s) (connectWaiters d))"
  by (simp add: connect_def doConnect_def logger_def Let_def connect_settled_def
      fold_deliver_results)

subsection \<open>The client with two sessions, evaluated\<close>

lemma two_sessions_client_state [code]:
  "two_sessions_client =
     \<lparr>ws = Some 0, pending = [], chatListeners = [''r1'', ''r2''], connected = True,
      closed = False, disconnected = False, reconnectTimer = None, backoffMs = 1000,
      connectPromise = None, lastSeq = Some 2,
      sessionProgress =
        [(''s1'', \<lparr>p_runId = ''r1'', p_sessionKey = ''s1'', p_accumulated = ''He'',
                   p_lastSeq = 1, updatedAt = 0\<rparr>),
         (''s2'', \<lparr>p_runId = ''r2'', p_sessionKey = ''s2'', p_accumulated = ''xy'',
                   p_lastSeq = 2, updatedAt = 200000\<rparr>)],
      now = 200000, timers = [], nextTimer = 3,
      sockets = [\<lparr>readyState = OPEN, attemptSettled = True\<rparr>],
      sent = [(0, ''h1'', ''connect''), (0, ''q1'', ''chat.send''), (0, ''q2'', ''chat.send'')],
      logs = [LogConnecting, LogConnected, LogSaved ''s1'' 2 1, LogSaved ''s2'' 2 2],
      runs =
        [(''r1'', \<lparr>params_sessionKey = ''s1'', accumulated = ''He'', lastYieldedLength = 0,
                   isDone = False, error = None, disconnectedWithData = False,
                   lastEventSeq = 1, hasNewData = True, phase = YieldedLoop,
                   yielded = [''He'']\<rparr>),
         (''r2'', \<lparr>params_sessionKey = ''s2'', accumulated = ''xy'', lastYieldedLength = 0,
                   isDone = False, error = None, disconnectedWithData = False,
                   lastEventSeq = 2, hasNewData = True, phase = YieldedLoop,
                   yielded = [''xy'']\<rparr>)],
      connectWaiters = [], connectResults = [(Caller 0, Resolved)], requestResults = [],
      microtasks = []\<rparr>"
  by code_simp

section \<open>The claims\<close>

text \<open>
  C1 fails on the code. The text \<open>Hello\<close> arrives and is yielded; while the generator
  is suspended at that \<^verbatim>\<open>yield\<close>, the text \<open>Hello wor\<close> arrives and the socket closes,
  so the listener gets the error event with text accumulated and finishes gracefully.
  Behind the \<^verbatim>\<open>yield\<close> the generator sets \<^verbatim>\<open>lastYieldedLength\<close> to the length
  the text has by then, so the stream returns without an error, the cache keeps the
  entry, but the caller has got \<open>Hello\<close> only: \<open> wor\<close> is never yielded.
\<close>

theorem graceful_finish_loses_text:
  "map_option phase
     (map_of (runs (exec [SockMessage 0 (chat_frame (text_event ''r1'' 1 Delta ''Hello''))]
                      streaming_client)) ''r1'')
     = Some YieldedLoop
   \<and> map_of (runs (exec [SockMessage 0 (chat_frame (text_event ''r1'' 1 Delta ''Hello'')),
                          SockMessage 0 (chat_frame (text_event ''r1'' 2 Delta ''Hello wor'')),
                          SockClose 0, CallNext ''r1''] streaming_client)) ''r1''
     = Some \<lparr>params_sessionKey = ''s1'', accumulated = ''Hello wor'', lastYieldedLength = 9,
              isDone = True, error = None, disconnectedWithData = True, lastEventSeq = - 1,
              hasNewData = False, phase = Returned, yielded = [''Hello'']\<rparr>
   \<and> map_option p_accumulated
       (map_of (sessionProgress
                  (exec [SockMessage 0 (chat_frame (text_event ''r1'' 1 Delta ''Hello'')),
                         SockMessage 0 (chat_frame (text_event ''r1'' 2 Delta ''Hello wor'')),
                         SockClose 0, CallNext ''r1''] streaming_client)) ''s1'')
     = Some ''Hello wor''"
  by code_simp

text \<open>
  C2 fails on the code. The listener is registered before \<^verbatim>\<open>chat.send\<close> is sent. An
  error event that reaches it while the answer to \<^verbatim>\<open>chat.send\<close> is still awaited
  records the error and sets \<^verbatim>\<open>done\<close>; when the answer then comes, \<^verbatim>\<open>while (!done)\<close>
  is not entered, where alone the error is thrown, and the stream returns with nothing
  yielded and no error. The same event after the answer makes the stream throw.
\<close>

theorem error_before_answer_is_swallowed:
  "map_of (runs (exec [CallChatStream ''r1'' ''q1'' ''s1'',
                       SockMessage 0 (chat_frame (error_event ''r1'' 1 ''run failed'')),
                       SockMessage 0 (Some (ResFrame ''q1'' True None))] connected_client)) ''r1''
     = Some \<lparr>params_sessionKey = ''s1'', accumulated = [], lastYieldedLength = 0,
              isDone = True, error = Some ''run failed'', disconnectedWithData = False,
              lastEventSeq = 1, hasNewData = False, phase = Returned, yielded = []\<rparr>
   \<and> map_option phase
       (map_of (runs (exec [CallChatStream ''r1'' ''q1'' ''s1'',
                            SockMessage 0 (Some (ResFrame ''q1'' True None)),
                            SockMessage 0 (chat_frame (error_event ''r1'' 1 ''run failed''))]
                        connected_client)) ''r1'')
     = Some (Thrown ''run failed'')"
  by code_simp

text \<open>
  C3 fails on the code. The text \<open>He\<close> arrives and is yielded; while the generator is
  suspended at that \<^verbatim>\<open>yield\<close>, the text \<open>Hello\<close> arrives. When the consumer calls
  \<^verbatim>\<open>next()\<close>, the generator sets \<^verbatim>\<open>lastYieldedLength = accumulated.length\<close>, which
  is 5 by then and not the 2 characters it yielded, and clears \<^verbatim>\<open>hasNewData\<close>. The
  final text \<open>Hello!\<close> then yields \<open>!\<close>, and the stream returns: the increments are
  \<open>He\<close> and \<open>!\<close>, the accumulated text is \<open>Hello!\<close>.
\<close>

theorem increments_skip_text_arrived_at_yield:
  "map_option phase
     (map_of (runs (exec [SockMessage 0 (chat_frame (text_event ''r1'' 1 Delta ''He''))]
                      streaming_client)) ''r1'')
     = Some YieldedLoop
   \<and> map_of (runs (exec [SockMessage 0 (chat_frame (text_event ''r1'' 1 Delta ''He'')),
                          SockMessage 0 (chat_frame (text_event ''r1'' 2 Delta ''Hello'')),
                          CallNext ''r1'',
                          SockMessage 0 (chat_frame (text_event ''r1'' 3 Final ''Hello!'')),
                          CallNext ''r1''] streaming_client)) ''r1''
     = Some \<lparr>params_sessionKey = ''s1'', accumulated = ''Hello!'', lastYieldedLength = 6,
              isDone = True, error = None, disconnectedWithData = False, lastEventSeq = 3,
              hasNewData = False, phase = Returned, yielded = [''He'', ''!'']\<rparr>"
  by code_simp





text \<open>
  C6, for sequence numbers that are integers from 0 to \<open>2 ^ 53 - 1\<close>, where the number
  arithmetic of JavaScript is exact. An event frame with a sequence number \<open>n\<close> is
  handed on exactly as one without a gap: \<^verbatim>\<open>handleMessage\<close> is \<open>route_event\<close> after
  \<open>track_seq\<close>, and \<open>track_seq\<close> changes the cursor and the log only, so the listener of
  the run gets the payload. The cursor becomes \<open>n\<close> in every case, and with \<open>n\<close> and
  the cursor in that range a gap warning is logged exactly when \<open>n\<close> exceeds the old
  cursor plus 1, with the expected number, \<open>n\<close> and the count of missed events.
  Events 1, 2, 5 on a client whose cursor is unset or in that range add one gap
  warning, for the jump from 2 to 5 (expected 3, received 5, missed 2).
\<close>

theorem gap_logged_delivery_unchanged:
  "handleMessage (Some (EventFrame ev (Some n) payload)) c = route_event ev payload (track_seq n c)
   \<and> lastSeq (handleMessage (Some (EventFrame ev (Some n) payload)) c) = Some n
   \<and> (seq_in_range n \<and> (case lastSeq c of None \<Rightarrow> True | Some l \<Rightarrow> seq_in_range l) \<longrightarrow>
        track_seq n c
          = c\<lparr>logs := logs c @ (case lastSeq c of
                                  None \<Rightarrow> []
                                | Some l \<Rightarrow> if n > l + 1 then [LogGap (l + 1) n (n - l - 1)] else []),
              lastSeq := Some n\<rparr>)
   \<and> chatListeners (track_seq n c) = chatListeners c \<and> runs (track_seq n c) = runs c
   \<and> microtasks (track_seq n c) = microtasks c
   \<and> sessionProgress (track_seq n c) = sessionProgress c
   \<and> (runId p \<in> set (chatListeners c) \<longrightarrow>
        handleMessage (Some (EventFrame ''chat'' (Some n) (Some p))) c
          = listener (runId p) p (track_seq n c))
   \<and> ((case lastSeq c' of None \<Rightarrow> True | Some l \<Rightarrow> seq_in_range l) \<longrightarrow>
        filter is_gap
          (logs (handleMessage (Some (EventFrame ec (Some 5) pc))
                  (handleMessage (Some (EventFrame eb (Some 2) pb))
                    (handleMessage (Some (EventFrame ea (Some 1) pa)) c'))))
        = filter is_gap (logs c') @ [LogGap 3 5 2])"
proof (intro conjI impI)
  show "handleMessage (Some (EventFrame ev (Some n) payload)) c
      = route_event ev payload (track_seq n c)"
    by (rule handleMessage_event)
  show "lastSeq (handleMessage (Some (EventFrame ev (Some n) payload)) c) = Some n"
    by (simp add: handleMessage_event track_seq_fields)
  show "chatListeners (track_seq n c) = chatListeners c" and "runs (track_seq n c) = runs c"
    and "microtasks (track_seq n c) = microtasks c"
    and "sessionProgress (track_seq n c) = sessionProgress c"
    by simp_all
next
  assume a: "seq_in_range n \<and> (case lastSeq c of None \<Rightarrow> True | Some l \<Rightarrow> seq_in_range l)"
  show "track_seq n c
          = c\<lparr>logs := logs c @ (case lastSeq c of
                                  None \<Rightarrow> []
                                | Some l \<Rightarrow> if n > l + 1 then [LogGap (l + 1) n (n - l - 1)] else []),
              lastSeq := Some n\<rparr>"
  proof (cases "lastSeq c")
    case None
    then show ?thesis by (simp add: track_seq_def)
  next
    case (Some l)
    then have l: "0 \<le> l" "l \<le> 9007199254740991" and n: "0 \<le> n" "n \<le> 9007199254740991"
      using a by (simp_all add: seq_in_range_def)
    have 1: "dbl (l + 1) = l + 1"
      using l by (intro dbl_exact) simp
    have 2: "dbl (n - l) = n - l"
      using l n by (intro dbl_exact) simp
    have 3: "dbl (n - l - 1) = n - l - 1"
      using l n by (intro dbl_exact) simp
    show ?thesis
      using Some by (simp add: track_seq_def logger_def 1 2 3)
  qed
next
  assume "runId p \<in> set (chatListeners c)"
  then show "handleMessage (Some (EventFrame ''chat'' (Some n) (Some p))) c
          = listener (runId p) p (track_seq n c)"
    by (simp add: handleMessage_event route_event_def)
next
  assume "case lastSeq c' of None \<Rightarrow> True | Some l \<Rightarrow> seq_in_range l"
  then show "filter is_gap
          (logs (handleMessage (Some (EventFrame ec (Some 5) pc))
                  (handleMessage (Some (EventFrame eb (Some 2) pb))
                    (handleMessage (Some (EventFrame ea (Some 1) pa)) c'))))
        = filter is_gap (logs c') @ [LogGap 3 5 2]"
    by (rule gaps_one_two_five)
qed

theorem gap_logged_delivery_unchanged_witness:
  "(seq_in_range 5
      \<and> (case lastSeq (exec [SockMessage 0 (chat_frame (text_event ''r1'' 1 Delta ''a'')),
                              CallNext ''r1'',
                              SockMessage 0 (chat_frame (text_event ''r1'' 2 Delta ''ab'')),
                              CallNext ''r1''] streaming_client) of
            None \<Rightarrow> True | Some l \<Rightarrow> seq_in_range l)
      \<and> runId (text_event ''r1'' 5 Delta ''abc'')
           \<in> set (chatListeners
                    (exec [SockMessage 0 (chat_frame (text_event ''r1'' 1 Delta ''a'')),
                           CallNext ''r1'',
                           SockMessage 0 (chat_frame (text_event ''r1'' 2 Delta ''ab'')),
                           CallNext ''r1''] streaming_client))
      \<and> (case lastSeq streaming_client of None \<Rightarrow> True | Some l \<Rightarrow> seq_in_range l))
   \<and> lastSeq (exec [SockMessage 0 (chat_frame (text_event ''r1'' 1 Delta ''a'')),
                     CallNext ''r1'',
                     SockMessage 0 (chat_frame (text_event ''r1'' 2 Delta ''ab'')),
                     CallNext ''r1''] streaming_client) = Some 2
   \<and> logs (track_seq 5
        (exec [SockMessage 0 (chat_frame (text_event ''r1'' 1 Delta ''a'')),
               CallNext ''r1'',
               SockMessage 0 (chat_frame (text_event ''r1'' 2 Delta ''ab'')),
               CallNext ''r1''] streaming_client))
      = logs (exec [SockMessage 0 (chat_frame (text_event ''r1'' 1 Delta ''a'')),
                    CallNext ''r1'',
                    SockMessage 0 (chat_frame (text_event ''r1'' 2 Delta ''ab'')),
                    CallNext ''r1''] streaming_client)
        @ [LogGap 3 5 2]
   \<and> handleMessage (Some (EventFrame ''chat'' (Some 5) (Some (text_event ''r1'' 5 Delta ''abc''))))
        (exec [SockMessage 0 (chat_frame (text_event ''r1'' 1 Delta ''a'')),
               CallNext ''r1'',
               SockMessage 0 (chat_frame (text_event ''r1'' 2 Delta ''ab'')),
               CallNext ''r1''] streaming_client)
      = listener (runId (text_event ''r1'' 5 Delta ''abc'')) (text_event ''r1'' 5 Delta ''abc'')
          (track_seq 5
            (exec [SockMessage 0 (chat_frame (text_event ''r1'' 1 Delta ''a'')),
                   CallNext ''r1'',
                   SockMessage 0 (chat_frame (text_event ''r1'' 2 Delta ''ab'')),
                   CallNext ''r1''] streaming_client))
   \<and> filter is_gap
        (logs (handleMessage (Some (EventFrame ''chat'' (Some 5) (Some (text_event ''r1'' 5 Delta ''abc''))))
                (handleMessage (Some (EventFrame ''chat'' (Some 2) (Some (text_event ''r1'' 2 Delta ''ab''))))
                  (handleMessage (Some (EventFrame ''chat'' (Some 1) (Some (text_event ''r1'' 1 Delta ''a''))))
                     streaming_client))))
        = filter is_gap (logs streaming_client) @ [LogGap 3 5 2]
   \<and> map_option yielded
        (map_of (runs (exec [SockMessage 0 (chat_frame (text_event ''r1'' 1 Delta ''a'')),
                             CallNext ''r1'',
                             SockMessage 0 (chat_frame (text_event ''r1'' 2 Delta ''ab'')),
                             CallNext ''r1'',
                             SockMessage 0 (chat_frame (text_event ''r1'' 5 Delta ''abc''))]
                        streaming_client)) ''r1'')
        = Some [''a'', ''b'', ''c'']
   \<and> filter is_gap
        (logs (exec [SockMessage 0 (chat_frame (text_event ''r1'' 1 Delta ''a'')),
                     CallNext ''r1'',
                     SockMessage 0 (chat_frame (text_event ''r1'' 2 Delta ''ab'')),
                     CallNext ''r1'',
                     SockMessage 0 (chat_frame (text_event ''r1'' 5 Delta ''abc''))]
                streaming_client))
        = [LogGap 3 5 2]"
proof -
  define c2 where "c2 = exec [SockMessage 0 (chat_frame (text_event ''r1'' 1 Delta ''a'')),
                              CallNext ''r1'',
                              SockMessage 0 (chat_frame (text_event ''r1'' 2 Delta ''ab'')),
                              CallNext ''r1''] streaming_client"
  have h: "seq_in_range 5
      \<and> (case lastSeq (exec [SockMessage 0 (chat_frame (text_event ''r1'' 1 Delta ''a'')),
                              CallNext ''r1'',
                              SockMessage 0 (chat_frame (text_event ''r1'' 2 Delta ''ab'')),
                              CallNext ''r1''] streaming_client) of
            None \<Rightarrow> True | Some l \<Rightarrow> seq_in_range l)
      \<and> runId (text_event ''r1'' 5 Delta ''abc'')
           \<in> set (chatListeners
                    (exec [SockMessage 0 (chat_frame (text_event ''r1'' 1 Delta ''a'')),
                           CallNext ''r1'',
                           SockMessage 0 (chat_frame (text_event ''r1'' 2 Delta ''ab'')),
                           CallNext ''r1''] streaming_client))
      \<and> (case lastSeq streaming_client of None \<Rightarrow> True | Some l \<Rightarrow> seq_in_range l)"
    by code_simp
  have l2: "lastSeq (exec [SockMessage 0 (chat_frame (text_event ''r1'' 1 Delta ''a'')),
                     CallNext ''r1'',
                     SockMessage 0 (chat_frame (text_event ''r1'' 2 Delta ''ab'')),
                     CallNext ''r1''] streaming_client) = Some 2"
    by code_simp
  have e1: "map_option yielded
        (map_of (runs (exec [SockMessage 0 (chat_frame (text_event ''r1'' 1 Delta ''a'')),
                             CallNext ''r1'',
                             SockMessage 0 (chat_frame (text_event ''r1'' 2 Delta ''ab'')),
                             CallNext ''r1'',
                             SockMessage 0 (chat_frame (text_event ''r1'' 5 Delta ''abc''))]
                        streaming_client)) ''r1'')
        = Some [''a'', ''b'', ''c'']"
    by code_simp
  have e2: "filter is_gap
        (logs (exec [SockMessage 0 (chat_frame (text_event ''r1'' 1 Delta ''a'')),
                     CallNext ''r1'',
                     SockMessage 0 (chat_frame (text_event ''r1'' 2 Delta ''ab'')),
                     CallNext ''r1'',
                     SockMessage 0 (chat_frame (text_event ''r1'' 5 Delta ''abc''))]
                streaming_client))
        = [LogGap 3 5 2]"
    by code_simp
  note t = gap_logged_delivery_unchanged
        [where c=c2 and n=5 and p="text_event ''r1'' 5 Delta ''abc''" and c'=streaming_client
           and ea="''chat''" and eb="''chat''" and ec="''chat''"
           and pa="Some (text_event ''r1'' 1 Delta ''a'')"
           and pb="Some (text_event ''r1'' 2 Delta ''ab'')"
           and pc="Some (text_event ''r1'' 5 Delta ''abc'')"]
  have w1: "track_seq 5 c2
          = c2\<lparr>logs := logs c2 @ (case lastSeq c2 of
                                  None \<Rightarrow> []
                                | Some l \<Rightarrow> if 5 > l + 1 then [LogGap (l + 1) 5 (5 - l - 1)] else []),
              lastSeq := Some 5\<rparr>"
    using h t unfolding c2_def by blast
  have w1': "logs (track_seq 5 c2) = logs c2 @ [LogGap 3 5 2]"
    unfolding w1 using l2 by (simp add: c2_def)
  have w2: "handleMessage (Some (EventFrame ''chat'' (Some 5) (Some (text_event ''r1'' 5 Delta ''abc'')))) c2
      = listener (runId (text_event ''r1'' 5 Delta ''abc'')) (text_event ''r1'' 5 Delta ''abc'')
          (track_seq 5 c2)"
    using h t unfolding c2_def by blast
  have w3: "filter is_gap
        (logs (handleMessage (Some (EventFrame ''chat'' (Some 5) (Some (text_event ''r1'' 5 Delta ''abc''))))
                (handleMessage (Some (EventFrame ''chat'' (Some 2) (Some (text_event ''r1'' 2 Delta ''ab''))))
                  (handleMessage (Some (EventFrame ''chat'' (Some 1) (Some (text_event ''r1'' 1 Delta ''a''))))
                     streaming_client))))
        = filter is_gap (logs streaming_client) @ [LogGap 3 5 2]"
    using h t by blast
  show ?thesis
    using h l2 e1 e2 w1' w2 w3 unfolding c2_def by blast
qed

text \<open>
  The claim as stated, for every numeric sequence number, fails on the code from
  \<open>2 ^ 53\<close> on. With the cursor at 9007199254740994, the frame with sequence number
  9007199254740996 exceeds the cursor plus 1, but \<^verbatim>\<open>this.lastSeq + 1\<close> is rounded to
  9007199254740996 and no gap is logged. With the cursor at 9007199254740992, the
  frame with sequence number 9007199254740994 logs a gap whose expected number is the
  cursor itself.
\<close>

theorem gap_missed_beyond_safe_integers:
  "(9007199254740996::int) > 9007199254740994 + 1
   \<and> lastSeq (exec [SockMessage 0 (Some (EventFrame ''tick'' (Some 9007199254740994) None))]
                 connected_client) = Some 9007199254740994
   \<and> filter is_gap
       (logs (exec [SockMessage 0 (Some (EventFrame ''tick'' (Some 9007199254740994) None)),
                    SockMessage 0 (Some (EventFrame ''tick'' (Some 9007199254740996) None))]
                connected_client)) = []
   \<and> filter is_gap
       (logs (exec [SockMessage 0 (Some (EventFrame ''tick'' (Some 9007199254740992) None)),
                    SockMessage 0 (Some (EventFrame ''tick'' (Some 9007199254740994) None))]
                connected_client))
       = [LogGap 9007199254740992 9007199254740994 1]"
  by code_simp

text \<open>
  C7. \<^verbatim>\<open>close()\<close> marks the client closed, cancels the reconnect timer, tears the
  socket down and rejects every pending request with "client closed": the continuation
  of each of the N pending requests is queued with that rejection, and the pending table
  is empty. In a client whose timers are as \<open>timers_ok\<close> says (every client reached from
  \<open>new_client\<close> is one), no reconnect timer is scheduled when \<^verbatim>\<open>close()\<close> returns, nor
  after any tasks \<open>bs\<close> that follow.
\<close>

theorem close_rejects_pending_and_ends_reconnects:
  "closed (close c) \<and> reconnectTimer (close c) = None \<and> ws (close c) = None
   \<and> pending (close c) = []
   \<and> microtasks (close c)
        = microtasks c
          @ map (\<lambda>p. ReqSettled (awaiter (snd p)) (Rejected ''client closed'')) (pending c)
   \<and> (ws c = Some s \<and> socket_state c s \<noteq> None \<longrightarrow>
        socket_state (close c) s = Some CLOSING \<or> socket_state (close c) s = Some CLOSED)
   \<and> (timers_ok c \<longrightarrow>
        reconnect_timers (close c) = []
        \<and> closed (exec bs (step CallClose c))
        \<and> reconnectTimer (exec bs (step CallClose c)) = None
        \<and> reconnect_timers (exec bs (step CallClose c)) = [])"
proof -
  have after: "closed (step CallClose c)" "reconnectTimer (step CallClose c) = None"
    by (simp_all add: handle_def close_fields)
  have later: "closed (exec bs (step CallClose c)) \<and> reconnectTimer (exec bs (step CallClose c)) = None"
    using after by (rule exec_after_close)
  have "reconnect_timers (close c) = []" if "timers_ok c"
    using that by (intro reconnect_timers_none close_timers_ok close_fields)
  moreover have "reconnect_timers (exec bs (step CallClose c)) = []" if "timers_ok c"
    using that later by (intro reconnect_timers_none exec_timers_ok step_timers_ok) simp_all
  ultimately show ?thesis
    using later close_socket[of c s] by (simp add: close_fields close_microtasks)
qed

theorem close_rejects_pending_and_ends_reconnects_witness:
  "timers_ok busy_client \<and> ws busy_client = Some 0 \<and> socket_state busy_client 0 = Some OPEN
   \<and> map fst (pending busy_client) = [''a1'', ''a2'']
   \<and> closed (close busy_client) \<and> pending (close busy_client) = []
   \<and> microtasks (close busy_client)
        = [ReqSettled (Outside 1) (Rejected ''client closed''),
           ReqSettled (Outside 2) (Rejected ''client closed'')]
   \<and> socket_state (close busy_client) 0 = Some CLOSING
   \<and> requestResults (step CallClose busy_client)
        = [(1, Rejected ''client closed''), (2, Rejected ''client closed'')]
   \<and> reconnect_timers (exec [SockClose 0, Advance 60000] (step CallClose busy_client)) = []"
proof -
  have h: "timers_ok busy_client" "ws busy_client = Some 0"
      "socket_state busy_client 0 = Some OPEN"
    by code_simp+
  have e: "map fst (pending busy_client) = [''a1'', ''a2'']"
      "microtasks (close busy_client)
        = [ReqSettled (Outside 1) (Rejected ''client closed''),
           ReqSettled (Outside 2) (Rejected ''client closed'')]"
      "socket_state (close busy_client) 0 = Some CLOSING"
      "requestResults (step CallClose busy_client)
        = [(1, Rejected ''client closed''), (2, Rejected ''client closed'')]"
    by code_simp+
  show ?thesis
    using close_rejects_pending_and_ends_reconnects
            [of busy_client 0 "[SockClose 0, Advance 60000]"] h e
    by simp
qed

text \<open>
  C8 fails on the code. \<^verbatim>\<open>connect()\<close> tests \<^verbatim>\<open>this.connected\<close> before
  \<^verbatim>\<open>this.closed\<close>, and \<^verbatim>\<open>close()\<close> leaves \<^verbatim>\<open>connected\<close> set until the close event of
  the socket is handled. On the connected client, \<^verbatim>\<open>close()\<close> is called and then
  \<^verbatim>\<open>connect()\<close>, before the close event: the client is closed and has no socket, yet
  \<^verbatim>\<open>connect()\<close> returns at once and the caller's promise is resolved, with no error,
  and a request made next fails with "not connected". The same call after the close
  event is rejected with "client is closed".
\<close>

theorem connect_after_close_no_error:
  "closed (step CallClose connected_client) \<and> ws (step CallClose connected_client) = None
   \<and> connected (step CallClose connected_client)
   \<and> connect (step CallClose connected_client) = (ReturnsVoid, step CallClose connected_client)
   \<and> connectResults (exec [CallClose, CallConnect 5] connected_client)
        = [(Caller 0, Resolved), (Caller 5, Resolved)]
   \<and> requestResults (exec [CallClose, CallConnect 5, CallAbortChat 6 ''a1''] connected_client)
        = [(6, Rejected ''not connected'')]
   \<and> connectResults (exec [CallClose, SockClose 0, CallConnect 5] connected_client)
        = [(Caller 0, Resolved), (Caller 5, Rejected ''client is closed'')]"
  by code_simp

text \<open>
  C9, as the code has it. \<^verbatim>\<open>getProgress\<close> first drops every entry, of whatever
  session, whose \<^verbatim>\<open>updatedAt\<close> lies more than 300000 ms (5 minutes) before now, keeps
  all others, and returns the entry of the key in what is left, if there is one;
  \<^verbatim>\<open>chatStream\<close> makes this lookup when it starts. When the listener of a run gets a
  final or aborted event, the cache loses the entry of the run's session and nothing
  else. An entry that is absent stays absent through every task except a delta event
  with a longer text for a registered run of that session, which saves it again; so it
  stays absent through any run of tasks without such an event.
\<close>

theorem progress_lookup_sweeps_and_end_clears:
  "sessionProgress (snd (getProgress k c))
     = filter (\<lambda>e. \<not> now c - updatedAt (snd e) > 300000) (sessionProgress c)
   \<and> fst (getProgress k c)
       = map_of (filter (\<lambda>e. \<not> now c - updatedAt (snd e) > 300000) (sessionProgress c)) k
   \<and> sessionProgress (chatStream r i k c)
       = filter (\<lambda>e. \<not> now c - updatedAt (snd e) > 300000) (sessionProgress c)
   \<and> (map_of (runs d) r = Some v \<and> (state evt = Final \<or> state evt = Aborted) \<longrightarrow>
        sessionProgress (listener r evt d)
          = AList.delete (params_sessionKey v) (sessionProgress d))
   \<and> ((socket_state d s = Some OPEN \<or> socket_state d s = Some CLOSING)
        \<and> runId evt \<in> set (chatListeners d)
        \<and> map_of (runs d) (runId evt) = Some v \<and> (state evt = Final \<or> state evt = Aborted) \<longrightarrow>
        sessionProgress (step (SockMessage s (Some (EventFrame ''chat'' sq (Some evt)))) d)
          = AList.delete (params_sessionKey v) (sessionProgress d))
   \<and> (map_of (sessionProgress d') k' = None \<longrightarrow>
        (map_of (sessionProgress (step a d')) k' \<noteq> None) = saves_progress k' a d')
   \<and> (map_of (sessionProgress d') k' = None \<and> never_saves k' bs d' \<longrightarrow>
        map_of (sessionProgress (exec bs d')) k' = None)"
proof (intro conjI impI)
  show "sessionProgress (snd (getProgress k c))
     = filter (\<lambda>e. \<not> now c - updatedAt (snd e) > 300000) (sessionProgress c)"
    by (simp add: getProgress_eq)
  show "fst (getProgress k c)
       = map_of (filter (\<lambda>e. \<not> now c - updatedAt (snd e) > 300000) (sessionProgress c)) k"
    by (simp add: getProgress_eq)
  show "sessionProgress (chatStream r i k c)
       = filter (\<lambda>e. \<not> now c - updatedAt (snd e) > 300000) (sessionProgress c)"
    by (rule chatStream_sessionProgress)
next
  assume "map_of (runs d) r = Some v \<and> (state evt = Final \<or> state evt = Aborted)"
  then show "sessionProgress (listener r evt d)
          = AList.delete (params_sessionKey v) (sessionProgress d)"
    using listener_end_removes[of d r v evt] by blast
next
  assume "(socket_state d s = Some OPEN \<or> socket_state d s = Some CLOSING)
        \<and> runId evt \<in> set (chatListeners d)
        \<and> map_of (runs d) (runId evt) = Some v \<and> (state evt = Final \<or> state evt = Aborted)"
  then show "sessionProgress (step (SockMessage s (Some (EventFrame ''chat'' sq (Some evt)))) d)
          = AList.delete (params_sessionKey v) (sessionProgress d)"
    using end_event_removes[of d s evt v sq] by blast
next
  assume "map_of (sessionProgress d') k' = None"
  then show "(map_of (sessionProgress (step a d')) k' \<noteq> None) = saves_progress k' a d'"
    by (rule step_absent)
next
  assume "map_of (sessionProgress d') k' = None \<and> never_saves k' bs d'"
  then show "map_of (sessionProgress (exec bs d')) k' = None"
    using exec_absent[of d' k' bs] by blast
qed

theorem progress_lookup_sweeps_and_end_clears_witness:
  "map fst (sessionProgress two_sessions_client) = [''s1'', ''s2'']
   \<and> map fst (sessionProgress (snd (getProgress ''s1'' (step (Advance 100000) two_sessions_client))))
        = [''s1'', ''s2'']
   \<and> map_option p_accumulated (fst (getProgress ''s1'' (step (Advance 100000) two_sessions_client)))
        = Some ''He''
   \<and> map fst (sessionProgress (snd (getProgress ''s1'' (step (Advance 100001) two_sessions_client))))
        = [''s2'']
   \<and> fst (getProgress ''s1'' (step (Advance 100001) two_sessions_client)) = None
   \<and> map_option p_accumulated (fst (getProgress ''s2'' (step (Advance 100001) two_sessions_client)))
        = Some ''xy''
   \<and> ((socket_state two_sessions_client 0 = Some OPEN
          \<or> socket_state two_sessions_client 0 = Some CLOSING)
        \<and> runId (text_event ''r1'' 3 Final ''Hello'') \<in> set (chatListeners two_sessions_client)
        \<and> map_of (runs two_sessions_client) (runId (text_event ''r1'' 3 Final ''Hello''))
            = Some \<lparr>params_sessionKey = ''s1'', accumulated = ''He'', lastYieldedLength = 0,
                    isDone = False, error = None, disconnectedWithData = False,
                    lastEventSeq = 1, hasNewData = True, phase = YieldedLoop,
                    yielded = [''He'']\<rparr>
        \<and> (state (text_event ''r1'' 3 Final ''Hello'') = Final
             \<or> state (text_event ''r1'' 3 Final ''Hello'') = Aborted))
   \<and> sessionProgress
        (step (SockMessage 0 (Some (EventFrame ''chat'' (Some 3)
                 (Some (text_event ''r1'' 3 Final ''Hello''))))) two_sessions_client)
      = AList.delete ''s1'' (sessionProgress two_sessions_client)
   \<and> sessionProgress
        (step (SockMessage 0 (Some (EventFrame ''chat'' (Some 3)
                 (Some (text_event ''r1'' 3 Final ''Hello''))))) two_sessions_client)
      = [(''s2'', \<lparr>p_runId = ''r2'', p_sessionKey = ''s2'', p_accumulated = ''xy'',
                   p_lastSeq = 2, updatedAt = 200000\<rparr>)]
   \<and> (map_of (sessionProgress
          (step (SockMessage 0 (Some (EventFrame ''chat'' (Some 3)
                   (Some (text_event ''r1'' 3 Final ''Hello''))))) two_sessions_client)) ''s1'' = None
        \<and> never_saves ''s1''
             [CallNext ''r1'', CallNext ''r1'',
              SockMessage 0 (chat_frame ((text_event ''r2'' 4 Delta ''xyz'')\<lparr>sessionKey := ''s2''\<rparr>)),
              Advance 1000, CallChatStream ''r3'' ''q3'' ''s1'', SockClose 0]
             (step (SockMessage 0 (Some (EventFrame ''chat'' (Some 3)
                      (Some (text_event ''r1'' 3 Final ''Hello''))))) two_sessions_client))
   \<and> map_of (sessionProgress
        (exec [CallNext ''r1'', CallNext ''r1'',
               SockMessage 0 (chat_frame ((text_event ''r2'' 4 Delta ''xyz'')\<lparr>sessionKey := ''s2''\<rparr>)),
               Advance 1000, CallChatStream ''r3'' ''q3'' ''s1'', SockClose 0]
           (step (SockMessage 0 (Some (EventFrame ''chat'' (Some 3)
                    (Some (text_event ''r1'' 3 Final ''Hello''))))) two_sessions_client))) ''s1''
      = None
   \<and> (map_of (sessionProgress
          (step (CallNext ''r1'')
             (step (SockMessage 0 (Some (EventFrame ''chat'' (Some 3)
                      (Some (text_event ''r1'' 3 Final ''Hello''))))) two_sessions_client))) ''s1''
         \<noteq> None)
      = saves_progress ''s1'' (CallNext ''r1'')
          (step (SockMessage 0 (Some (EventFrame ''chat'' (Some 3)
                   (Some (text_event ''r1'' 3 Final ''Hello''))))) two_sessions_client)
   \<and> map_option phase
        (map_of (runs
          (exec [SockMessage 0 (chat_frame (text_event ''r1'' 3 Final ''Hello'')), CallNext ''r1'',
                 CallNext ''r1''] two_sessions_client)) ''r1'')
      = Some Returned"
proof -
  define e where "e = step (SockMessage 0 (Some (EventFrame ''chat'' (Some 3)
                          (Some (text_event ''r1'' 3 Final ''Hello''))))) two_sessions_client"
  have a1: "map fst (sessionProgress two_sessions_client) = [''s1'', ''s2'']"
    by code_simp
  have a2: "map fst (sessionProgress (snd (getProgress ''s1'' (step (Advance 100000) two_sessions_client))))
        = [''s1'', ''s2'']"
    by code_simp
  have a3: "map_option p_accumulated (fst (getProgress ''s1'' (step (Advance 100000) two_sessions_client)))
        = Some ''He''"
    by code_simp
  have a4: "map fst (sessionProgress (snd (getProgress ''s1'' (step (Advance 100001) two_sessions_client))))
        = [''s2'']"
    by code_simp
  have a5: "fst (getProgress ''s1'' (step (Advance 100001) two_sessions_client)) = None"
    by code_simp
  have a6: "map_option p_accumulated (fst (getProgress ''s2'' (step (Advance 100001) two_sessions_client)))
        = Some ''xy''"
    by code_simp
  have h1: "(socket_state two_sessions_client 0 = Some OPEN
          \<or> socket_state two_sessions_client 0 = Some CLOSING)
        \<and> runId (text_event ''r1'' 3 Final ''Hello'') \<in> set (chatListeners two_sessions_client)
        \<and> map_of (runs two_sessions_client) (runId (text_event ''r1'' 3 Final ''Hello''))
            = Some \<lparr>params_sessionKey = ''s1'', accumulated = ''He'', lastYieldedLength = 0,
                    isDone = False, error = None, disconnectedWithData = False,
                    lastEventSeq = 1, hasNewData = True, phase = YieldedLoop,
                    yielded = [''He'']\<rparr>
        \<and> (state (text_event ''r1'' 3 Final ''Hello'') = Final
             \<or> state (text_event ''r1'' 3 Final ''Hello'') = Aborted)"
    by code_simp
  have v1: "sessionProgress
        (step (SockMessage 0 (Some (EventFrame ''chat'' (Some 3)
                 (Some (text_event ''r1'' 3 Final ''Hello''))))) two_sessions_client)
      = [(''s2'', \<lparr>p_runId = ''r2'', p_sessionKey = ''s2'', p_accumulated = ''xy'',
                   p_lastSeq = 2, updatedAt = 200000\<rparr>)]"
    by code_simp
  have h2: "map_of (sessionProgress
          (step (SockMessage 0 (Some (EventFrame ''chat'' (Some 3)
                   (Some (text_event ''r1'' 3 Final ''Hello''))))) two_sessions_client)) ''s1'' = None
        \<and> never_saves ''s1''
             [CallNext ''r1'', CallNext ''r1'',
              SockMessage 0 (chat_frame ((text_event ''r2'' 4 Delta ''xyz'')\<lparr>sessionKey := ''s2''\<rparr>)),
              Advance 1000, CallChatStream ''r3'' ''q3'' ''s1'', SockClose 0]
             (step (SockMessage 0 (Some (EventFrame ''chat'' (Some 3)
                      (Some (text_event ''r1'' 3 Final ''Hello''))))) two_sessions_client)"
    by code_simp
  have v2: "map_option phase
        (map_of (runs
          (exec [SockMessage 0 (chat_frame (text_event ''r1'' 3 Final ''Hello'')), CallNext ''r1'',
                 CallNext ''r1''] two_sessions_client)) ''r1'')
      = Some Returned"
    by code_simp
  have ps: "params_sessionKey \<lparr>params_sessionKey = ''s1'', accumulated = ''He'', lastYieldedLength = 0,
                    isDone = False, error = None, disconnectedWithData = False,
                    lastEventSeq = 1, hasNewData = True, phase = YieldedLoop,
                    yielded = [''He'']\<rparr> = ''s1''"
    by simp
  note t = progress_lookup_sweeps_and_end_clears
        [where d=two_sessions_client and s=0 and evt="text_event ''r1'' 3 Final ''Hello''"
           and sq="Some 3"
           and v="\<lparr>params_sessionKey = ''s1'', accumulated = ''He'', lastYieldedLength = 0,
                    isDone = False, error = None, disconnectedWithData = False,
                    lastEventSeq = 1, hasNewData = True, phase = YieldedLoop,
                    yielded = [''He'']\<rparr>"
           and d'=e and k'="''s1''" and a="CallNext ''r1''"
           and bs="[CallNext ''r1'', CallNext ''r1'',
                    SockMessage 0 (chat_frame ((text_event ''r2'' 4 Delta ''xyz'')\<lparr>sessionKey := ''s2''\<rparr>)),
                    Advance 1000, CallChatStream ''r3'' ''q3'' ''s1'', SockClose 0]"]
  have w1: "sessionProgress
        (step (SockMessage 0 (Some (EventFrame ''chat'' (Some 3)
                 (Some (text_event ''r1'' 3 Final ''Hello''))))) two_sessions_client)
      = AList.delete ''s1'' (sessionProgress two_sessions_client)"
    using h1 t unfolding ps by blast
  have w2: "map_of (sessionProgress
        (exec [CallNext ''r1'', CallNext ''r1'',
               SockMessage 0 (chat_frame ((text_event ''r2'' 4 Delta ''xyz'')\<lparr>sessionKey := ''s2''\<rparr>)),
               Advance 1000, CallChatStream ''r3'' ''q3'' ''s1'', SockClose 0] e)) ''s1'' = None"
    using h2 t unfolding e_def by blast
  have w3: "(map_of (sessionProgress (step (CallNext ''r1'') e)) ''s1'' \<noteq> None)
      = saves_progress ''s1'' (CallNext ''r1'') e"
    using h2 t unfolding e_def by blast
  show ?thesis
    using a1 a2 a3 a4 a5 a6 h1 v1 h2 v2 w1 w2 w3 unfolding e_def by blast
qed

text \<open>
  The claim as stated fails where it says that the entry is absent after normal
  completion. A stream of session \<open>s1\<close> gets its final event, which removes the entry,
  and yields the text; before the consumer calls \<^verbatim>\<open>next()\<close>, a late delta event with a
  longer text for the same run arrives, and the listener, which is registered until
  the generator ends, saves it. The stream then returns, and the cache holds an entry
  for \<open>s1\<close>. The same happens when another stream of the session, still under way,
  saves its text after the final event of the first.
\<close>

theorem entry_present_after_normal_completion:
  "sessionProgress (exec [SockMessage 0 (chat_frame (text_event ''r1'' 1 Final ''abc''))]
                      streaming_client) = []
   \<and> map_option phase
       (map_of (runs (exec [SockMessage 0 (chat_frame (text_event ''r1'' 1 Final ''abc'')),
                            SockMessage 0 (chat_frame (text_event ''r1'' 2 Delta ''abcd'')),
                            CallNext ''r1''] streaming_client)) ''r1'') = Some Returned
   \<and> map_option p_accumulated
       (map_of (sessionProgress
                  (exec [SockMessage 0 (chat_frame (text_event ''r1'' 1 Final ''abc'')),
                         SockMessage 0 (chat_frame (text_event ''r1'' 2 Delta ''abcd'')),
                         CallNext ''r1''] streaming_client)) ''s1'') = Some ''abcd''
   \<and> map_option phase
       (map_of (runs (exec [CallChatStream ''r2'' ''q2'' ''s1'',
                            SockMessage 0 (Some (ResFrame ''q2'' True None)),
                            SockMessage 0 (chat_frame (text_event ''r1'' 1 Delta ''He'')),
                            CallNext ''r1'',
                            SockMessage 0 (chat_frame (text_event ''r2'' 2 Final ''ok'')),
                            SockMessage 0 (chat_frame (text_event ''r1'' 3 Delta ''Hello'')),
                            CallNext ''r2''] streaming_client)) ''r2'') = Some Returned
   \<and> map_option p_accumulated
       (map_of (sessionProgress
                  (exec [CallChatStream ''r2'' ''q2'' ''s1'',
                         SockMessage 0 (Some (ResFrame ''q2'' True None)),
                         SockMessage 0 (chat_frame (text_event ''r1'' 1 Delta ''He'')),
                         CallNext ''r1'',
                         SockMessage 0 (chat_frame (text_event ''r2'' 2 Final ''ok'')),
                         SockMessage 0 (chat_frame (text_event ''r1'' 3 Delta ''Hello'')),
                         CallNext ''r2''] streaming_client)) ''s1'') = Some ''Hello''"
  by code_simp



end
